theory Spec2Isabelle
  imports Main "HOL-Library.Word"
begin

unbundle bit_operations_syntax

section \<open>Control-mode codes and masks (controller\_base.hpp)\<close>

text \<open>
  A control-mode code is a \<^verbatim>\<open>uint8_t\<close>. The C++ expressions on codes
  (\<^verbatim>\<open>&\<close>, \<^verbatim>\<open>==\<close>, \<^verbatim>\<open><\<close>) are evaluated after integer promotion to
  \<^verbatim>\<open>int\<close>; every operand is in \<open>0..255\<close>, so they agree with the bitwise
  operations, equality and the unsigned order of \<^typ>\<open>8 word\<close>.
\<close>

type_synonym uint8_t = "8 word"

definition MATCH_ALL :: uint8_t where
  "MATCH_ALL = 0xFF"

definition MATCH_MODE_AND_FRAME :: uint8_t where
  "MATCH_MODE_AND_FRAME = 0xF3"

definition MATCH_MODE :: uint8_t where
  "MATCH_MODE = 0xF0"

definition UNSET_MODE_MASK :: uint8_t where
  "UNSET_MODE_MASK = 0x00"

definition HOVER_MODE_MASK :: uint8_t where
  "HOVER_MODE_MASK = 0x10"

section \<open>Mode matching (controller\_base.cpp, lines 50--72)\<close>

definition checkMatchWithMask :: "uint8_t \<Rightarrow> uint8_t \<Rightarrow> uint8_t \<Rightarrow> bool" where
  "checkMatchWithMask mode1 mode2 msk = ((mode1 AND msk) = (mode2 AND msk))"

text \<open>
  The range-for loop of \<^verbatim>\<open>findBestMatchWithMask\<close>, with the running
  \<^verbatim>\<open>best_match\<close> as an argument. The \<^verbatim>\<open>return candidate\<close> inside the loop
  is the branch that does not recurse.
\<close>

fun findBestMatch_loop :: "uint8_t \<Rightarrow> uint8_t \<Rightarrow> uint8_t \<Rightarrow> uint8_t list \<Rightarrow> uint8_t" where
  "findBestMatch_loop mode msk best_match [] = best_match"
| "findBestMatch_loop mode msk best_match (candidate # rest) =
     (if checkMatchWithMask mode candidate msk
      then (if candidate = mode then candidate
            else findBestMatch_loop mode msk candidate rest)
      else findBestMatch_loop mode msk best_match rest)"

definition findBestMatchWithMask :: "uint8_t \<Rightarrow> uint8_t list \<Rightarrow> uint8_t \<Rightarrow> uint8_t" where
  "findBestMatchWithMask mode mode_list msk = findBestMatch_loop mode msk 0 mode_list"

section \<open>Messages and collaborators\<close>

text \<open>
  The ROS message types are defined outside this repository. The base class only stores,
  copies and publishes them, so their contents are type parameters: \<open>'p\<close> the pose of
  a \<^verbatim>\<open>PoseStamped\<close>, \<open>'t\<close> the twist of a \<^verbatim>\<open>TwistStamped\<close>, \<open>'h\<close> the
  fields of a \<^verbatim>\<open>Thrust\<close> message beside its header, \<open>'j\<close> a
  \<^verbatim>\<open>JointTrajectoryPoint\<close>, and \<open>'m\<close> an \<^verbatim>\<open>as2_msgs::msg::ControlMode\<close>.
  A header is its time stamp (a clock reading) and its frame name.
\<close>

record Header =
  stamp :: nat
  frame_id :: string

record 'a Stamped =
  header :: Header
  payload :: 'a

text \<open>Of \<^verbatim>\<open>PlatformInfo\<close> the class reads two fields only.\<close>

record PlatformInfo =
  armed :: bool
  offboard :: bool

text \<open>
  The functions of \<^verbatim>\<open>as2_core/control_mode_utils\<close> and the constant
  \<^verbatim>\<open>as2_msgs::msg::ControlMode::HOVER\<close> are not part of this repository; they are
  parameters. \<open>is_HOVER m\<close> stands for \<^verbatim>\<open>m.control_mode == ControlMode::HOVER\<close>.
\<close>

record 'm as2 =
  is_HOVER :: "'m \<Rightarrow> bool"
  convertAS2ControlModeToUint8t :: "'m \<Rightarrow> uint8_t"
  convertUint8tToAS2ControlMode :: "uint8_t \<Rightarrow> 'm"

text \<open>
  What the collaborators answer during one \<^verbatim>\<open>setControlModeSrvCall\<close>:
  the return value and the response of the two synchronous service clients, and the
  return value of the subclass hook \<^verbatim>\<open>setMode\<close>. The hooks of the subclass cannot
  write the private members of the base class.
\<close>

record 'm env =
  list_out :: bool
  list_control_modes :: "uint8_t list"
  set_out :: "'m \<Rightarrow> bool"
  set_success :: "'m \<Rightarrow> bool"
  setMode :: "'m \<Rightarrow> 'm \<Rightarrow> bool"

text \<open>
  The source reports every failure of a negotiation as \<^verbatim>\<open>response->success = false\<close>
  after a log line. The model names the place of each failure:
  \<^item> \<open>PlatformQueryError\<close>: line 220, the list request failed;
  \<^item> \<open>NoAvailableModes\<close>: line 225, the platform listed no mode;
  \<^item> \<open>NoSuitableOutputMode\<close>: line 375;
  \<^item> \<open>IncompatibleModeLevel\<close>: line 284, the level comparison of
    \<^verbatim>\<open>checkSuitabilityInputMode\<close>;
  \<^item> \<open>UnsupportedInputMode\<close>: line 287 returning \<^verbatim>\<open>mode_found = false\<close>;
  \<^item> \<open>PlatformRejected\<close>: line 394;
  \<^item> \<open>SubclassRejected\<close>: \<^verbatim>\<open>setMode\<close> returned false (lines 409 and 419).
  A response is \<open>None\<close> when \<^verbatim>\<open>response->success\<close> is true.
\<close>

datatype error =
    PlatformQueryError
  | NoAvailableModes
  | NoSuitableOutputMode
  | UnsupportedInputMode
  | IncompatibleModeLevel
  | PlatformRejected
  | SubclassRejected

type_synonym response = "error option"

definition success :: "response \<Rightarrow> bool" where
  "success r = (r = None)"

text \<open>What a callback does to the outside: the hooks it calls and the messages it publishes.\<close>

datatype ('p, 't, 'j, 'h) event =
    UpdateState "'p Stamped" "'t Stamped"
  | UpdateReferencePose "'p Stamped"
  | UpdateReferenceTwist "'t Stamped"
  | UpdateReferenceTraj 'j
  | ComputeOutput
  | PublishPose "'p Stamped"
  | PublishTwist "'t Stamped"
  | PublishThrust "'h Stamped"
  | ServiceResponse response

section \<open>The state of ControllerBase (controller\_base.hpp, lines 79--186)\<close>

record ('m, 'p, 't, 'j) ControllerBase =
  controller_available_modes_in :: "uint8_t list"
  controller_available_modes_out :: "uint8_t list"
  platform_available_modes_in :: "uint8_t list"
  platform_info :: PlatformInfo
  control_mode_established :: bool
  motion_reference_adquired :: bool
  state_adquired :: bool
  input_mode :: 'm
  output_mode :: 'm
  prefered_output_mode :: uint8_t
  use_bypass :: bool
  bypass_controller :: bool
  pose :: "'p Stamped"
  twist :: "'t Stamped"
  ref_pose :: "'p Stamped"
  ref_twist :: "'t Stamped"
  ref_traj :: 'j

text \<open>
  The member initialisers of the class and \<^verbatim>\<open>initialize\<close> (lines 74--129).
  \<open>use_bypass_param\<close> is what \<^verbatim>\<open>get_parameter("use_bypass", use_bypass_)\<close> leaves in
  \<^verbatim>\<open>use_bypass_\<close>; \<open>unset_mode\<close> is a default \<^verbatim>\<open>ControlMode\<close> with
  \<^verbatim>\<open>control_mode = UNSET\<close>; the other arguments are the default-constructed messages.
\<close>

definition initialize ::
  "bool \<Rightarrow> 'm \<Rightarrow> 'p Stamped \<Rightarrow> 't Stamped \<Rightarrow> 'j \<Rightarrow> ('m, 'p, 't, 'j) ControllerBase" where
  "initialize use_bypass_param unset_mode pose0 twist0 traj0 =
     \<lparr> controller_available_modes_in = [],
       controller_available_modes_out = [],
       platform_available_modes_in = [],
       platform_info = \<lparr> armed = False, offboard = False \<rparr>,
       control_mode_established = False,
       motion_reference_adquired = False,
       state_adquired = False,
       input_mode = unset_mode,
       output_mode = unset_mode,
       prefered_output_mode = 0,
       use_bypass = use_bypass_param,
       bypass_controller = False,
       pose = pose0,
       twist = twist0,
       ref_pose = pose0,
       ref_twist = twist0,
       ref_traj = traj0 \<rparr>"

definition getMode :: "('m, 'p, 't, 'j) ControllerBase \<Rightarrow> 'm" where
  "getMode s = input_mode s"

text \<open>\<^verbatim>\<open>std::sort\<close> on bytes is the ascending unsigned order.\<close>

definition setInputControlModesAvailables ::
  "uint8_t list \<Rightarrow> ('m, 'p, 't, 'j) ControllerBase \<Rightarrow> ('m, 'p, 't, 'j) ControllerBase" where
  "setInputControlModesAvailables available_modes s =
     s\<lparr> controller_available_modes_in := sort available_modes \<rparr>"

definition setOutputControlModesAvailables ::
  "uint8_t list \<Rightarrow> ('m, 'p, 't, 'j) ControllerBase \<Rightarrow> ('m, 'p, 't, 'j) ControllerBase" where
  "setOutputControlModesAvailables available_modes s =
     s\<lparr> controller_available_modes_out := sort available_modes \<rparr>"

section \<open>Subscription callbacks (lines 131--169)\<close>

definition state_callback ::
  "'p Stamped \<Rightarrow> 't Stamped \<Rightarrow> ('m, 'p, 't, 'j) ControllerBase
   \<Rightarrow> ('m, 'p, 't, 'j) ControllerBase \<times> ('p, 't, 'j, 'h) event list" where
  "state_callback pose_msg twist_msg s =
     (s\<lparr> state_adquired := True, pose := pose_msg, twist := twist_msg \<rparr>,
      if \<not> bypass_controller s then [UpdateState pose_msg twist_msg] else [])"

definition ref_pose_callback ::
  "'p Stamped \<Rightarrow> ('m, 'p, 't, 'j) ControllerBase
   \<Rightarrow> ('m, 'p, 't, 'j) ControllerBase \<times> ('p, 't, 'j, 'h) event list" where
  "ref_pose_callback msg s =
     (s\<lparr> motion_reference_adquired := True, ref_pose := msg \<rparr>,
      if \<not> bypass_controller s then [UpdateReferencePose msg] else [])"

definition ref_twist_callback ::
  "'t Stamped \<Rightarrow> ('m, 'p, 't, 'j) ControllerBase
   \<Rightarrow> ('m, 'p, 't, 'j) ControllerBase \<times> ('p, 't, 'j, 'h) event list" where
  "ref_twist_callback msg s =
     (s\<lparr> motion_reference_adquired := True, ref_twist := msg \<rparr>,
      if \<not> bypass_controller s then [UpdateReferenceTwist msg] else [])"

definition ref_traj_callback ::
  "'j \<Rightarrow> ('m, 'p, 't, 'j) ControllerBase
   \<Rightarrow> ('m, 'p, 't, 'j) ControllerBase \<times> ('p, 't, 'j, 'h) event list" where
  "ref_traj_callback msg s =
     (s\<lparr> motion_reference_adquired := True, ref_traj := msg \<rparr>,
      if \<not> bypass_controller s then [UpdateReferenceTraj msg] else [])"

definition platform_info_callback ::
  "PlatformInfo \<Rightarrow> ('m, 'p, 't, 'j) ControllerBase \<Rightarrow> ('m, 'p, 't, 'j) ControllerBase" where
  "platform_info_callback msg s = s\<lparr> platform_info := msg \<rparr>"

section \<open>The control loop (lines 171--192 and 431--459)\<close>

text \<open>
  \<open>now\<close> is what \<^verbatim>\<open>node_ptr_->now()\<close> reads; \<open>computed\<close> is the three messages as the
  subclass hook \<^verbatim>\<open>computeOutput\<close> leaves them. The call of the hook is the event
  \<open>ComputeOutput\<close>.
\<close>

definition sendCommand ::
  "nat \<Rightarrow> 'p Stamped \<times> 't Stamped \<times> 'h Stamped \<Rightarrow> ('m, 'p, 't, 'j) ControllerBase
   \<Rightarrow> ('p, 't, 'j, 'h) event list" where
  "sendCommand now computed s =
     (if bypass_controller s then
        (if \<not> motion_reference_adquired s then []
         else [PublishPose (ref_pose s), PublishTwist (ref_twist s)])
      else
        (case computed of (pose0, twist0, thrust0) \<Rightarrow>
           let pose1 = pose0\<lparr> header := (header pose0)\<lparr> stamp := now \<rparr> \<rparr>;
               twist1 = twist0\<lparr> header := (header twist0)\<lparr> stamp := stamp (header pose1) \<rparr> \<rparr>;
               thrust1 = thrust0\<lparr> header := header pose1 \<rparr>
           in [ComputeOutput, PublishPose pose1, PublishTwist twist1, PublishThrust thrust1]))"

text \<open>
  \<^verbatim>\<open>!offboard || !armed\<close> evaluates left to right; both branches return.
\<close>

definition control_timer_callback ::
  "nat \<Rightarrow> 'p Stamped \<times> 't Stamped \<times> 'h Stamped \<Rightarrow> ('m, 'p, 't, 'j) ControllerBase
   \<Rightarrow> ('p, 't, 'j, 'h) event list" where
  "control_timer_callback now computed s =
     (if \<not> offboard (platform_info s) then []
      else if \<not> armed (platform_info s) then []
      else if \<not> control_mode_established s then []
      else if \<not> state_adquired s then []
      else sendCommand now computed s)"

section \<open>Negotiation (lines 195--429)\<close>

definition setPlatformControlMode :: "'m env \<Rightarrow> 'm \<Rightarrow> bool" where
  "setPlatformControlMode e mode = (set_out e mode \<and> set_success e mode)"

text \<open>The result \<open>None\<close> is \<^verbatim>\<open>return true\<close>.\<close>

definition listPlatformAvailableControlModes ::
  "'m env \<Rightarrow> ('m, 'p, 't, 'j) ControllerBase \<Rightarrow> error option \<times> ('m, 'p, 't, 'j) ControllerBase" where
  "listPlatformAvailableControlModes e s =
     (if platform_available_modes_in s = [] then
        (if \<not> list_out e then (Some PlatformQueryError, s)
         else if list_control_modes e = [] then (Some NoAvailableModes, s)
         else (None, s\<lparr> platform_available_modes_in := list_control_modes e \<rparr>))
      else (None, s))"

text \<open>
  \<^verbatim>\<open>tryToBypassController\<close> and \<^verbatim>\<open>findSuitableOutputControlModeForPlatformInputMode\<close>
  write their reference parameter \<^verbatim>\<open>output_mode\<close> exactly when they return true:
  \<open>Some output_mode\<close> is \<^verbatim>\<open>true\<close>, \<open>None\<close> is \<^verbatim>\<open>false\<close>.
\<close>

definition tryToBypassController ::
  "('m, 'p, 't, 'j) ControllerBase \<Rightarrow> uint8_t \<Rightarrow> uint8_t option" where
  "tryToBypassController s input_mode' =
     (if (input_mode' AND MATCH_MODE) = UNSET_MODE_MASK \<or>
         (input_mode' AND MATCH_MODE) = HOVER_MODE_MASK
      then None
      else (let candidate_mode =
                  findBestMatchWithMask input_mode' (platform_available_modes_in s) MATCH_ALL
            in if candidate_mode \<noteq> 0 then Some candidate_mode else None))"

text \<open>
  The loop of \<^verbatim>\<open>checkSuitabilityInputMode\<close> leaves in three ways: \<^verbatim>\<open>return true\<close>
  from inside, \<^verbatim>\<open>break\<close> with \<^verbatim>\<open>mode_found = true\<close>, or the end of the list with
  \<^verbatim>\<open>mode_found = false\<close>.
\<close>

datatype mode_scan = ReturnTrue | ModeFound | ModeNotFound

fun scan_available_modes_in :: "uint8_t \<Rightarrow> uint8_t list \<Rightarrow> mode_scan" where
  "scan_available_modes_in input_mode' [] = ModeNotFound"
| "scan_available_modes_in input_mode' (mode # rest) =
     (if (input_mode' AND MATCH_MODE) = HOVER_MODE_MASK \<and> (input_mode' AND MATCH_MODE) = mode
      then ReturnTrue
      else if mode = input_mode' then ModeFound
      else scan_available_modes_in input_mode' rest)"

text \<open>The literal of line 280 is \<^verbatim>\<open>0b1111000\<close>, seven binary digits: \<open>0x78\<close>.\<close>

definition checkSuitabilityInputMode ::
  "('m, 'p, 't, 'j) ControllerBase \<Rightarrow> uint8_t \<Rightarrow> uint8_t \<Rightarrow> error option" where
  "checkSuitabilityInputMode s input_mode' output_mode' =
     (case scan_available_modes_in input_mode' (controller_available_modes_in s) of
        ReturnTrue \<Rightarrow> None
      | found \<Rightarrow>
          if (input_mode' AND MATCH_MODE) < (output_mode' AND 0x78) then Some IncompatibleModeLevel
          else if found = ModeFound then None
          else Some UnsupportedInputMode)"

fun common_mode_loop :: "uint8_t list \<Rightarrow> uint8_t \<Rightarrow> uint8_t list \<Rightarrow> uint8_t" where
  "common_mode_loop platform_modes common_mode [] = common_mode"
| "common_mode_loop platform_modes common_mode (mode_out # rest) =
     (if (mode_out AND MATCH_MODE) = UNSET_MODE_MASK \<or> (mode_out AND MATCH_MODE) = HOVER_MODE_MASK
      then common_mode_loop platform_modes common_mode rest
      else common_mode_loop platform_modes
             (findBestMatchWithMask mode_out platform_modes MATCH_ALL) rest)"

definition findSuitableOutputControlModeForPlatformInputMode ::
  "('m, 'p, 't, 'j) ControllerBase \<Rightarrow> uint8_t \<Rightarrow> uint8_t option" where
  "findSuitableOutputControlModeForPlatformInputMode s input_mode' =
     (let match = findBestMatchWithMask (prefered_output_mode s)
                    (platform_available_modes_in s) MATCH_ALL
      in if prefered_output_mode s \<noteq> 0 \<and> match \<noteq> 0 then Some match
         else (let common_mode =
                     common_mode_loop (platform_available_modes_in s) 0
                       (controller_available_modes_out s)
               in if common_mode = 0 then None else Some common_mode))"

text \<open>Lines 335--343: the code of the requested mode.\<close>

definition input_control_mode_desired :: "'m as2 \<Rightarrow> 'm \<Rightarrow> uint8_t" where
  "input_control_mode_desired a request =
     (if is_HOVER a request then HOVER_MODE_MASK
      else convertAS2ControlModeToUint8t a request)"

text \<open>
  Lines 355--386: the bypass attempt, then on the other path the search of an output
  mode and the suitability check. The result is the state with \<^verbatim>\<open>bypass_controller_\<close>
  written and either the failure or \<^verbatim>\<open>output_control_mode_candidate\<close>.
\<close>

definition select_output_candidate ::
  "uint8_t \<Rightarrow> ('m, 'p, 't, 'j) ControllerBase
   \<Rightarrow> (error + uint8_t) \<times> ('m, 'p, 't, 'j) ControllerBase" where
  "select_output_candidate desired s =
     (case (if use_bypass s then tryToBypassController s desired else None) of
        Some candidate \<Rightarrow> (Inr candidate, s\<lparr> bypass_controller := True \<rparr>)
      | None \<Rightarrow>
          (let s1 = s\<lparr> bypass_controller := False \<rparr> in
           case findSuitableOutputControlModeForPlatformInputMode s1 desired of
             None \<Rightarrow> (Inl NoSuitableOutputMode, s1)
           | Some candidate \<Rightarrow>
               (case checkSuitabilityInputMode s1 desired candidate of
                  Some err \<Rightarrow> (Inl err, s1)
                | None \<Rightarrow> (Inr candidate, s1))))"

text \<open>Lines 388--428: the request to the platform and the call of the subclass.\<close>

definition request_and_set_mode ::
  "'m as2 \<Rightarrow> 'm env \<Rightarrow> 'm \<Rightarrow> uint8_t \<Rightarrow> ('m, 'p, 't, 'j) ControllerBase
   \<Rightarrow> response \<times> ('m, 'p, 't, 'j) ControllerBase" where
  "request_and_set_mode a e request candidate s =
     (let mode_to_request = convertUint8tToAS2ControlMode a candidate in
      if \<not> setPlatformControlMode e mode_to_request then (Some PlatformRejected, s)
      else
        (let s1 = s\<lparr> input_mode := request, output_mode := mode_to_request \<rparr> in
         if bypass_controller s1 then
           (let unset_mode = convertUint8tToAS2ControlMode a UNSET_MODE_MASK;
                ok = setMode e unset_mode unset_mode
            in (if ok then None else Some SubclassRejected,
                s1\<lparr> control_mode_established := ok \<rparr>))
         else
           (let ok = setMode e (input_mode s1) (output_mode s1)
            in (if ok then None else Some SubclassRejected,
                s1\<lparr> control_mode_established := ok,
                    state_adquired := False,
                    motion_reference_adquired := False \<rparr>))))"

definition setControlModeSrvCall ::
  "'m as2 \<Rightarrow> 'm env \<Rightarrow> 'm \<Rightarrow> ('m, 'p, 't, 'j) ControllerBase
   \<Rightarrow> response \<times> ('m, 'p, 't, 'j) ControllerBase" where
  "setControlModeSrvCall a e request s =
     (let s0 = s\<lparr> control_mode_established := False \<rparr>;
          desired = input_control_mode_desired a request
      in case listPlatformAvailableControlModes e s0 of
           (Some err, s1) \<Rightarrow> (Some err, s1)
         | (None, s1) \<Rightarrow>
             (case select_output_candidate desired s1 of
                (Inl err, s2) \<Rightarrow> (Some err, s2)
              | (Inr candidate, s2) \<Rightarrow> request_and_set_mode a e request candidate s2))"

section \<open>Runs of the node\<close>

text \<open>
  Everything runs on one executor, one callback after the other. An input is one callback
  with what it receives; a run threads the state through a list of inputs and collects
  the events.
\<close>

datatype ('m, 'p, 't, 'j, 'h) input =
    StateSample "'p Stamped" "'t Stamped"
  | RefPose "'p Stamped"
  | RefTwist "'t Stamped"
  | RefTraj 'j
  | PlatformInfoMsg PlatformInfo
  | Timer nat "'p Stamped \<times> 't Stamped \<times> 'h Stamped"
  | SetControlMode 'm "'m env"
  | SetInputModes "uint8_t list"
  | SetOutputModes "uint8_t list"

fun step ::
  "'m as2 \<Rightarrow> ('m, 'p, 't, 'j, 'h) input \<Rightarrow> ('m, 'p, 't, 'j) ControllerBase
   \<Rightarrow> ('m, 'p, 't, 'j) ControllerBase \<times> ('p, 't, 'j, 'h) event list" where
  "step a (StateSample pose_msg twist_msg) s = state_callback pose_msg twist_msg s"
| "step a (RefPose msg) s = ref_pose_callback msg s"
| "step a (RefTwist msg) s = ref_twist_callback msg s"
| "step a (RefTraj msg) s = ref_traj_callback msg s"
| "step a (PlatformInfoMsg msg) s = (platform_info_callback msg s, [])"
| "step a (Timer now computed) s = (s, control_timer_callback now computed s)"
| "step a (SetControlMode request e) s =
     (case setControlModeSrvCall a e request s of (r, s') \<Rightarrow> (s', [ServiceResponse r]))"
| "step a (SetInputModes ms) s = (setInputControlModesAvailables ms s, [])"
| "step a (SetOutputModes ms) s = (setOutputControlModesAvailables ms s, [])"

fun run ::
  "'m as2 \<Rightarrow> ('m, 'p, 't, 'j, 'h) input list \<Rightarrow> ('m, 'p, 't, 'j) ControllerBase
   \<Rightarrow> ('m, 'p, 't, 'j) ControllerBase \<times> ('p, 't, 'j, 'h) event list" where
  "run a [] s = (s, [])"
| "run a (i # rest) s =
     (case step a i s of (s1, ev) \<Rightarrow>
        (case run a rest s1 of (s2, evs) \<Rightarrow> (s2, ev @ evs)))"

text \<open>An input that is a state or reference sample.\<close>

fun is_sample :: "('m, 'p, 't, 'j, 'h) input \<Rightarrow> bool" where
  "is_sample (StateSample _ _) = True"
| "is_sample (RefPose _) = True"
| "is_sample (RefTwist _) = True"
| "is_sample (RefTraj _) = True"
| "is_sample _ = False"

text \<open>
  An instance of the conversion functions for concrete runs: the message is its own code,
  and a request is for hovering when the class nibble of its code is the hover class.
\<close>

definition code_as2 :: "uint8_t as2" where
  "code_as2 = \<lparr> is_HOVER = (\<lambda>m. (m AND MATCH_MODE) = HOVER_MODE_MASK),
                convertAS2ControlModeToUint8t = (\<lambda>m. m),
                convertUint8tToAS2ControlMode = (\<lambda>c. c) \<rparr>"

text \<open>A platform that lists the given modes and accepts every request, with an obliging subclass.\<close>

definition accepting_env :: "uint8_t list \<Rightarrow> uint8_t env" where
  "accepting_env modes =
     \<lparr> list_out = True, list_control_modes = modes,
       set_out = (\<lambda>_. True), set_success = (\<lambda>_. True), setMode = (\<lambda>_ _. True) \<rparr>"

text \<open>Messages and an initial node for concrete runs.\<close>

definition msg0 :: "nat \<Rightarrow> int \<Rightarrow> int Stamped" where
  "msg0 t x = \<lparr> header = \<lparr> stamp = t, frame_id = ''earth'' \<rparr>, payload = x \<rparr>"

definition node0 :: "bool \<Rightarrow> (uint8_t, int, int, int) ControllerBase" where
  "node0 use_bypass_param = initialize use_bypass_param 0 (msg0 0 0) (msg0 0 0) 0"

text \<open>A run of that node from its initial state.\<close>

definition node_run ::
  "bool \<Rightarrow> (uint8_t, int, int, int, int) input list
   \<Rightarrow> (uint8_t, int, int, int) ControllerBase \<times> (int, int, int, int) event list" where
  "node_run use_bypass_param inputs = run code_as2 inputs (node0 use_bypass_param)"

text \<open>A subclass whose \<^verbatim>\<open>setMode\<close> refuses; a platform that refuses the mode request.\<close>

definition refusing_subclass :: "uint8_t env \<Rightarrow> uint8_t env" where
  "refusing_subclass e = e\<lparr> setMode := (\<lambda>_ _. False) \<rparr>"

definition refusing_platform :: "uint8_t env \<Rightarrow> uint8_t env" where
  "refusing_platform e = e\<lparr> set_success := (\<lambda>_. False) \<rparr>"

text \<open>
  The invariant behind the lazy fetch: a mode is only ever established after the platform
  list has been filled, and the list is never emptied.
\<close>

definition listed_when_established :: "('m, 'p, 't, 'j) ControllerBase \<Rightarrow> bool" where
  "listed_when_established s =
     (control_mode_established s \<longrightarrow> platform_available_modes_in s \<noteq> [])"

text \<open>The equations that evaluate a concrete run.\<close>

lemmas model_defs = node_run_def refusing_subclass_def refusing_platform_def node0_def
  msg0_def initialize_def code_as2_def accepting_env_def
  setControlModeSrvCall_def listPlatformAvailableControlModes_def select_output_candidate_def
  request_and_set_mode_def input_control_mode_desired_def tryToBypassController_def
  findSuitableOutputControlModeForPlatformInputMode_def checkSuitabilityInputMode_def
  setPlatformControlMode_def findBestMatchWithMask_def checkMatchWithMask_def
  setInputControlModesAvailables_def setOutputControlModesAvailables_def
  state_callback_def ref_pose_callback_def ref_twist_callback_def ref_traj_callback_def
  platform_info_callback_def control_timer_callback_def sendCommand_def
  MATCH_ALL_def MATCH_MODE_def UNSET_MODE_MASK_def HOVER_MODE_MASK_def success_def getMode_def

section \<open>Properties of the matcher\<close>

lemma findBestMatch_loop_exact:
  "mode \<in> set xs \<Longrightarrow> findBestMatch_loop mode msk b xs = mode"
  by (induction xs arbitrary: b) (auto simp: checkMatchWithMask_def)

lemma findBestMatch_loop_no_exact:
  "mode \<notin> set xs \<Longrightarrow>
   findBestMatch_loop mode msk b xs =
     (if filter (\<lambda>c. checkMatchWithMask mode c msk) xs = [] then b
      else last (filter (\<lambda>c. checkMatchWithMask mode c msk) xs))"
  by (induction xs arbitrary: b) auto

lemma findBestMatch_loop_prefix:
  "mode \<notin> set ys \<Longrightarrow> findBestMatch_loop mode msk b (ys @ mode # zs) = mode"
  by (rule findBestMatch_loop_exact) simp

section \<open>Exact matching and the level comparison\<close>

lemma MATCH_ALL_and: "(x AND MATCH_ALL) = x"
proof -
  have "(0xFF :: 8 word) = - 1" by simp
  then show ?thesis
    unfolding MATCH_ALL_def by (simp only: and.right_neutral word_bitwise_m1_simps)
qed

lemma checkMatchWithMask_ALL: "checkMatchWithMask a b MATCH_ALL = (a = b)"
  by (simp add: checkMatchWithMask_def MATCH_ALL_and)

lemma findBestMatch_loop_ALL:
  "findBestMatch_loop m MATCH_ALL b xs = (if m \<in> set xs then m else b)"
  by (induction xs arbitrary: b) (auto simp: checkMatchWithMask_ALL)

lemma findBestMatchWithMask_ALL:
  "findBestMatchWithMask m xs MATCH_ALL = (if m \<in> set xs then m else 0)"
  by (simp add: findBestMatchWithMask_def findBestMatch_loop_ALL)

lemma and_0x70_le_and_0x78: "(x AND 0x70) \<le> (x AND (0x78 :: 8 word))"
proof -
  have "(0x78 :: 8 word) = 0x70 OR 0x08" by simp
  then have "x AND 0x78 = (x AND 0x70) OR (x AND 0x08)"
    by (simp only: word_ao_dist2)
  then show ?thesis by (simp only: le_word_or2)
qed

lemma and_0x70_le_and_0xF0: "(x AND 0x70) \<le> (x AND (0xF0 :: 8 word))"
proof -
  have "(0xF0 :: 8 word) = 0x70 OR 0x80" by simp
  then have "x AND 0xF0 = (x AND 0x70) OR (x AND 0x80)"
    by (simp only: word_ao_dist2)
  then show ?thesis by (simp only: le_word_or2)
qed

lemma and_0xF0_bit7_clear:
  assumes "x AND 0x80 = 0"
  shows "(x AND 0xF0) = (x AND (0x70 :: 8 word))"
proof -
  have "(0xF0 :: 8 word) = 0x70 OR 0x80" by simp
  then have "x AND 0xF0 = (x AND 0x70) OR (x AND 0x80)"
    by (simp only: word_ao_dist2)
  with assms show ?thesis by simp
qed

lemma and_0x78_bit3_clear:
  assumes "x AND 0x08 = 0"
  shows "(x AND 0x78) = (x AND (0x70 :: 8 word))"
proof -
  have "(0x78 :: 8 word) = 0x70 OR 0x08" by simp
  then have "x AND 0x78 = (x AND 0x70) OR (x AND 0x08)"
    by (simp only: word_ao_dist2)
  with assms show ?thesis by simp
qed

lemma level_lower_detected:
  "out AND 0x80 = 0 \<Longrightarrow> (inp AND MATCH_MODE) < (out AND MATCH_MODE)
   \<Longrightarrow> (inp AND MATCH_MODE) < (out AND 0x78)"
  using and_0x70_le_and_0x78 [of out] and_0xF0_bit7_clear [of out]
  by (simp add: MATCH_MODE_def)

lemma level_not_lower_passes:
  "out AND 0x08 = 0 \<Longrightarrow> (out AND MATCH_MODE) \<le> (inp AND MATCH_MODE)
   \<Longrightarrow> \<not> (inp AND MATCH_MODE) < (out AND 0x78)"
  using and_0x70_le_and_0xF0 [of out] and_0x78_bit3_clear [of out]
  by (simp add: MATCH_MODE_def)

section \<open>The two scans of the negotiation\<close>

lemma scan_available_modes_in_found:
  "scan_available_modes_in i ms \<noteq> ModeNotFound \<longleftrightarrow>
     ((i AND MATCH_MODE) = HOVER_MODE_MASK \<and> HOVER_MODE_MASK \<in> set ms) \<or> i \<in> set ms"
  by (induction ms) auto

lemma scan_available_modes_in_ReturnTrue:
  "scan_available_modes_in i ms = ReturnTrue \<Longrightarrow>
     (i AND MATCH_MODE) = HOVER_MODE_MASK \<and> HOVER_MODE_MASK \<in> set ms"
  by (induction ms) (auto split: if_splits)

lemma common_mode_loop_result:
  "common_mode_loop plat cm outs = r \<Longrightarrow> r \<noteq> cm \<Longrightarrow> r \<noteq> 0 \<Longrightarrow>
     r \<in> set plat \<and> r \<in> set outs \<and>
     (r AND MATCH_MODE) \<noteq> UNSET_MODE_MASK \<and> (r AND MATCH_MODE) \<noteq> HOVER_MODE_MASK"
proof (induction outs arbitrary: cm)
  case Nil
  then show ?case by simp
next
  case (Cons a outs)
  show ?case
  proof (cases "(a AND MATCH_MODE) = UNSET_MODE_MASK \<or> (a AND MATCH_MODE) = HOVER_MODE_MASK")
    case True
    with Cons show ?thesis by auto
  next
    case False
    let ?c = "findBestMatchWithMask a plat MATCH_ALL"
    from False Cons.prems have r: "common_mode_loop plat ?c outs = r" by simp
    show ?thesis
    proof (cases "r = ?c")
      case True
      with Cons.prems(3) have "a \<in> set plat" "r = a"
        by (auto simp: findBestMatchWithMask_ALL split: if_splits)
      with False show ?thesis by auto
    next
      case False
      with Cons.IH [OF r] Cons.prems(3) show ?thesis by auto
    qed
  qed
qed

section \<open>What the negotiation reads\<close>

lemma tryToBypassController_reads:
  "platform_available_modes_in s' = platform_available_modes_in s
   \<Longrightarrow> tryToBypassController s' d = tryToBypassController s d"
  by (simp add: tryToBypassController_def)

lemma findSuitable_reads:
  "platform_available_modes_in s' = platform_available_modes_in s
   \<Longrightarrow> prefered_output_mode s' = prefered_output_mode s
   \<Longrightarrow> controller_available_modes_out s' = controller_available_modes_out s
   \<Longrightarrow> findSuitableOutputControlModeForPlatformInputMode s' d
       = findSuitableOutputControlModeForPlatformInputMode s d"
  by (simp add: findSuitableOutputControlModeForPlatformInputMode_def Let_def)

lemma checkSuitabilityInputMode_reads:
  "controller_available_modes_in s' = controller_available_modes_in s
   \<Longrightarrow> checkSuitabilityInputMode s' d c = checkSuitabilityInputMode s d c"
  by (simp add: checkSuitabilityInputMode_def)

lemma findSuitable_no_preference:
  assumes "prefered_output_mode s = 0"
    and "findSuitableOutputControlModeForPlatformInputMode s d = Some m"
  shows "m \<in> set (platform_available_modes_in s) \<and>
         m \<in> set (controller_available_modes_out s) \<and>
         (m AND MATCH_MODE) \<noteq> UNSET_MODE_MASK \<and> (m AND MATCH_MODE) \<noteq> HOVER_MODE_MASK"
proof -
  let ?r = "common_mode_loop (platform_available_modes_in s) 0 (controller_available_modes_out s)"
  from assms have "?r = m" and "m \<noteq> 0"
    by (auto simp: findSuitableOutputControlModeForPlatformInputMode_def Let_def split: if_splits)
  then show ?thesis
    using common_mode_loop_result [of "platform_available_modes_in s" 0
        "controller_available_modes_out s" m] by simp
qed

text \<open>The service call once the platform list is there.\<close>

lemma srv_listed:
  assumes "platform_available_modes_in s \<noteq> []"
  shows "setControlModeSrvCall a e request s =
     (case select_output_candidate (input_control_mode_desired a request)
             (s\<lparr> control_mode_established := False \<rparr>) of
        (Inl err, s2) \<Rightarrow> (Some err, s2)
      | (Inr candidate, s2) \<Rightarrow> request_and_set_mode a e request candidate s2)"
  using assms by (simp add: setControlModeSrvCall_def listPlatformAvailableControlModes_def)

lemma srv_fetched:
  assumes "platform_available_modes_in s = []" and "list_out e" and "list_control_modes e \<noteq> []"
  shows "setControlModeSrvCall a e request s =
     setControlModeSrvCall a e request
       (s\<lparr> platform_available_modes_in := list_control_modes e \<rparr>)"
proof -
  let ?d = "input_control_mode_desired a request"
  let ?continue = "\<lambda>s1. case select_output_candidate ?d s1 of
        (Inl err, s2) \<Rightarrow> (Some err, s2)
      | (Inr candidate, s2) \<Rightarrow> request_and_set_mode a e request candidate s2"
  have swap: "s\<lparr> control_mode_established := False,
           platform_available_modes_in := list_control_modes e \<rparr>
      = s\<lparr> platform_available_modes_in := list_control_modes e,
           control_mode_established := False \<rparr>"
    by (cases s) simp
  have "setControlModeSrvCall a e request s
      = ?continue (s\<lparr> control_mode_established := False,
                      platform_available_modes_in := list_control_modes e \<rparr>)"
    using assms by (simp add: setControlModeSrvCall_def listPlatformAvailableControlModes_def)
  also have "\<dots> = ?continue (s\<lparr> platform_available_modes_in := list_control_modes e,
                      control_mode_established := False \<rparr>)"
    by (simp only: swap)
  also have "\<dots> = setControlModeSrvCall a e request
       (s\<lparr> platform_available_modes_in := list_control_modes e \<rparr>)"
    using assms(3) by (simp add: setControlModeSrvCall_def listPlatformAvailableControlModes_def)
  finally show ?thesis .
qed

lemma select_direct:
  assumes "use_bypass s \<longrightarrow> tryToBypassController s d = None"
  shows "select_output_candidate d s =
     (case findSuitableOutputControlModeForPlatformInputMode s d of
        None \<Rightarrow> (Inl NoSuitableOutputMode, s\<lparr> bypass_controller := False \<rparr>)
      | Some c \<Rightarrow>
          (case checkSuitabilityInputMode s d c of
             Some err \<Rightarrow> (Inl err, s\<lparr> bypass_controller := False \<rparr>)
           | None \<Rightarrow> (Inr c, s\<lparr> bypass_controller := False \<rparr>)))"
  using assms
  by (auto simp: select_output_candidate_def Let_def
      findSuitable_reads [of "s\<lparr> bypass_controller := False \<rparr>" s]
      checkSuitabilityInputMode_reads [of "s\<lparr> bypass_controller := False \<rparr>" s]
      split: option.splits)

lemma srv_direct_rejected:
  assumes "platform_available_modes_in s \<noteq> []"
    and "use_bypass s \<longrightarrow> tryToBypassController s (input_control_mode_desired a request) = None"
    and "findSuitableOutputControlModeForPlatformInputMode s (input_control_mode_desired a request) = Some c"
    and "checkSuitabilityInputMode s (input_control_mode_desired a request) c = Some err"
  shows "fst (setControlModeSrvCall a e request s) = Some err"
proof -
  let ?s0 = "s\<lparr> control_mode_established := False \<rparr>"
  let ?d = "input_control_mode_desired a request"
  have b: "use_bypass ?s0 \<longrightarrow> tryToBypassController ?s0 ?d = None"
    using assms(2) by (simp add: tryToBypassController_reads [of ?s0 s])
  have f: "findSuitableOutputControlModeForPlatformInputMode ?s0 ?d = Some c"
    using assms(3) by (simp add: findSuitable_reads [of ?s0 s])
  have c: "checkSuitabilityInputMode ?s0 ?d c = Some err"
    using assms(4) by (simp add: checkSuitabilityInputMode_reads [of ?s0 s])
  show ?thesis
    by (simp add: srv_listed [OF assms(1)] select_direct [OF b] f c)
qed

lemma tryToBypassController_only_0x12:
  "platform_available_modes_in s = [0x12] \<Longrightarrow> tryToBypassController s d = None"
  by (auto simp: tryToBypassController_def findBestMatchWithMask_ALL
      MATCH_MODE_def HOVER_MODE_MASK_def)

lemma findSuitable_modes_0x21_0x12:
  assumes "prefered_output_mode s = 0"
    and "controller_available_modes_out s = sort [0x21, 0x12]"
    and "platform_available_modes_in s = [0x12]"
  shows "findSuitableOutputControlModeForPlatformInputMode s d = None"
  using assms
  by (simp add: findSuitableOutputControlModeForPlatformInputMode_def findBestMatchWithMask_ALL
      MATCH_MODE_def HOVER_MODE_MASK_def UNSET_MODE_MASK_def)

lemma run_Cons_fst: "fst (run a (i # rest) s) = fst (run a rest (fst (step a i s)))"
  by (simp split: prod.splits)

lemma run_Cons_snd:
  "snd (run a (i # rest) s) = snd (step a i s) @ snd (run a rest (fst (step a i s)))"
  by (simp split: prod.splits)

section \<open>Stages of the service call\<close>

lemma list_failed:
  assumes "listPlatformAvailableControlModes e s = (Some err, s1)"
  shows "s1 = s \<and> platform_available_modes_in s = [] \<and>
         err = (if list_out e then NoAvailableModes else PlatformQueryError) \<and>
         (list_out e \<longrightarrow> list_control_modes e = [])"
  using assms by (simp add: listPlatformAvailableControlModes_def split: if_splits)

lemma list_ok:
  assumes "listPlatformAvailableControlModes e s = (None, s1)"
  shows "platform_available_modes_in s1 \<noteq> [] \<and>
         s1 = s\<lparr> platform_available_modes_in := platform_available_modes_in s1 \<rparr> \<and>
         control_mode_established s1 = control_mode_established s \<and>
         use_bypass s1 = use_bypass s"
  using assms by (auto simp: listPlatformAvailableControlModes_def split: if_splits)

lemma list_ok_state:
  assumes "listPlatformAvailableControlModes e s = (None, s1)"
  shows "s1 = s\<lparr> platform_available_modes_in :=
                   (if platform_available_modes_in s = [] then list_control_modes e
                    else platform_available_modes_in s) \<rparr>"
proof (cases "platform_available_modes_in s = []")
  case True
  with assms show ?thesis
    by (simp add: listPlatformAvailableControlModes_def split: if_splits)
next
  case False
  with assms have "s1 = s" by (simp add: listPlatformAvailableControlModes_def)
  with False show ?thesis by simp
qed

lemma select_state:
  "snd (select_output_candidate d s)
     = s\<lparr> bypass_controller := (use_bypass s \<and> tryToBypassController s d \<noteq> None) \<rparr>"
  by (simp add: select_output_candidate_def Let_def split: option.splits)

lemma select_bypass:
  assumes "use_bypass s" and "tryToBypassController s d = Some c"
  shows "select_output_candidate d s = (Inr c, s\<lparr> bypass_controller := True \<rparr>)"
  using assms by (simp add: select_output_candidate_def)

lemma srv_unfold:
  "setControlModeSrvCall a e request s =
     (case listPlatformAvailableControlModes e (s\<lparr> control_mode_established := False \<rparr>) of
        (Some err, s1) \<Rightarrow> (Some err, s1)
      | (None, s1) \<Rightarrow>
          (case select_output_candidate (input_control_mode_desired a request) s1 of
             (Inl err, s2) \<Rightarrow> (Some err, s2)
           | (Inr candidate, s2) \<Rightarrow> request_and_set_mode a e request candidate s2))"
  by (simp add: setControlModeSrvCall_def Let_def)

lemma srv_cases [case_names ListFailed SelectFailed Requested]:
  obtains
    (ListFailed) err where
      "platform_available_modes_in s = []"
      "err = (if list_out e then NoAvailableModes else PlatformQueryError)"
      "list_out e \<longrightarrow> list_control_modes e = []"
      "setControlModeSrvCall a e request s = (Some err, s\<lparr> control_mode_established := False \<rparr>)"
  | (SelectFailed) s1 err where
      "listPlatformAvailableControlModes e (s\<lparr> control_mode_established := False \<rparr>) = (None, s1)"
      "fst (select_output_candidate (input_control_mode_desired a request) s1) = Inl err"
      "setControlModeSrvCall a e request s =
         (Some err, snd (select_output_candidate (input_control_mode_desired a request) s1))"
  | (Requested) s1 candidate where
      "listPlatformAvailableControlModes e (s\<lparr> control_mode_established := False \<rparr>) = (None, s1)"
      "fst (select_output_candidate (input_control_mode_desired a request) s1) = Inr candidate"
      "setControlModeSrvCall a e request s =
         request_and_set_mode a e request candidate
           (snd (select_output_candidate (input_control_mode_desired a request) s1))"
proof -
  let ?s0 = "s\<lparr> control_mode_established := False \<rparr>"
  let ?d = "input_control_mode_desired a request"
  obtain l s1 where l: "listPlatformAvailableControlModes e ?s0 = (l, s1)"
    by (cases "listPlatformAvailableControlModes e ?s0")
  show thesis
  proof (cases l)
    case (Some err)
    with l list_failed [of e ?s0 err s1] show thesis
      by (intro ListFailed [of err]) (simp_all add: srv_unfold)
  next
    case None
    obtain x s2 where x: "select_output_candidate ?d s1 = (x, s2)"
      by (cases "select_output_candidate ?d s1")
    show thesis
    proof (cases x)
      case (Inl err)
      with l None x show thesis
        by (intro SelectFailed [of s1 err]) (simp_all add: srv_unfold)
    next
      case (Inr c)
      with l None x show thesis
        by (intro Requested [of s1 c]) (simp_all add: srv_unfold)
    qed
  qed
qed

lemma request_success_iff_established:
  assumes "\<not> control_mode_established s"
  shows "success (fst (request_and_set_mode a e request c s))
           = control_mode_established (snd (request_and_set_mode a e request c s))"
  using assms by (simp add: request_and_set_mode_def Let_def success_def)

lemma request_keeps:
  "platform_available_modes_in (snd (request_and_set_mode a e request c s))
     = platform_available_modes_in s \<and>
   bypass_controller (snd (request_and_set_mode a e request c s)) = bypass_controller s \<and>
   use_bypass (snd (request_and_set_mode a e request c s)) = use_bypass s"
  by (simp add: request_and_set_mode_def Let_def)

lemma request_direct_clears_acquired:
  assumes "\<not> bypass_controller s" and "fst (request_and_set_mode a e request c s) = None"
  shows "\<not> state_adquired (snd (request_and_set_mode a e request c s)) \<and>
         \<not> motion_reference_adquired (snd (request_and_set_mode a e request c s))"
  using assms by (simp add: request_and_set_mode_def Let_def split: if_splits)

lemma srv_success_iff_established:
  "success (fst (setControlModeSrvCall a e request s))
     = control_mode_established (snd (setControlModeSrvCall a e request s))"
proof (cases rule: srv_cases [of s e a request])
  case (ListFailed err)
  then show ?thesis by (simp add: success_def)
next
  case (SelectFailed s1 err)
  from list_ok [OF SelectFailed(1)] have "\<not> control_mode_established s1" by simp
  with SelectFailed show ?thesis by (simp add: success_def select_state)
next
  case (Requested s1 c)
  from list_ok [OF Requested(1)] have "\<not> control_mode_established s1" by simp
  then show ?thesis
    by (simp add: Requested(3) request_success_iff_established select_state)
qed

lemma srv_listed_when_established:
  "listed_when_established (snd (setControlModeSrvCall a e r s))"
proof (cases rule: srv_cases [of s e a r])
  case (ListFailed err)
  then show ?thesis by (simp add: listed_when_established_def)
next
  case (SelectFailed s1 err)
  with list_ok [OF SelectFailed(1)] show ?thesis
    by (simp add: listed_when_established_def select_state)
next
  case (Requested s1 c)
  with list_ok [OF Requested(1)] show ?thesis
    by (simp add: listed_when_established_def select_state request_keeps)
qed

lemma step_listed_when_established:
  "listed_when_established s \<Longrightarrow> listed_when_established (fst (step a i s))"
proof (cases i)
  case (SetControlMode r e)
  then show ?thesis
    using srv_listed_when_established [of a e r s]
    by (cases "setControlModeSrvCall a e r s") simp
qed (auto simp: listed_when_established_def state_callback_def ref_pose_callback_def
    ref_twist_callback_def ref_traj_callback_def platform_info_callback_def
    setInputControlModesAvailables_def setOutputControlModesAvailables_def)

lemma run_listed_when_established:
  "listed_when_established s \<Longrightarrow> listed_when_established (fst (run a inputs s))"
proof (induction inputs arbitrary: s)
  case Nil
  then show ?case by simp
next
  case (Cons i inputs)
  from Cons.IH [OF step_listed_when_established [OF Cons.prems, of a i]]
  show ?case by (simp only: run_Cons_fst)
qed

lemma initialize_listed_when_established:
  "listed_when_established (initialize ub m0 p0 t0 j0)"
  by (simp add: listed_when_established_def initialize_def)

lemma srv_direct_clears_acquired:
  assumes "success (fst (setControlModeSrvCall a e request s))"
    and "\<not> bypass_controller (snd (setControlModeSrvCall a e request s))"
  shows "\<not> state_adquired (snd (setControlModeSrvCall a e request s)) \<and>
         \<not> motion_reference_adquired (snd (setControlModeSrvCall a e request s))"
proof (cases rule: srv_cases [of s e a request])
  case (ListFailed err)
  with assms(1) show ?thesis by (simp add: success_def)
next
  case (SelectFailed s1 err)
  with assms(1) show ?thesis by (simp add: success_def)
next
  case (Requested s1 c)
  let ?s2 = "snd (select_output_candidate (input_control_mode_desired a request) s1)"
  from assms(2) have "\<not> bypass_controller ?s2"
    by (simp add: Requested(3) request_keeps)
  moreover from assms(1) have "fst (request_and_set_mode a e request c ?s2) = None"
    by (simp add: Requested(3) success_def)
  ultimately show ?thesis
    by (simp add: Requested(3) request_direct_clears_acquired)
qed

lemma control_timer_callback_gate:
  assumes "control_timer_callback now computed s \<noteq> []"
  shows "armed (platform_info s) \<and> offboard (platform_info s) \<and>
         control_mode_established s \<and> state_adquired s"
  using assms by (auto simp: control_timer_callback_def split: if_splits)

lemma request_subclass_rejected:
  assumes "fst (request_and_set_mode a e request c s) = Some SubclassRejected"
  shows "\<not> control_mode_established (snd (request_and_set_mode a e request c s)) \<and>
      input_mode (snd (request_and_set_mode a e request c s)) = request \<and>
      output_mode (snd (request_and_set_mode a e request c s)) = convertUint8tToAS2ControlMode a c \<and>
      setPlatformControlMode e (convertUint8tToAS2ControlMode a c) \<and>
      (if bypass_controller s
       then \<not> setMode e (convertUint8tToAS2ControlMode a UNSET_MODE_MASK)
                        (convertUint8tToAS2ControlMode a UNSET_MODE_MASK)
       else \<not> setMode e request (convertUint8tToAS2ControlMode a c))"
  using assms by (simp add: request_and_set_mode_def Let_def split: if_splits)

lemma select_error:
  "fst (select_output_candidate d s) = Inl err \<Longrightarrow>
     err = NoSuitableOutputMode \<or> err = IncompatibleModeLevel \<or> err = UnsupportedInputMode"
  by (auto simp: select_output_candidate_def checkSuitabilityInputMode_def Let_def
      split: option.splits if_splits mode_scan.splits)

lemma run_samples_bypass:
  "bypass_controller s \<Longrightarrow> list_all is_sample samples \<Longrightarrow>
     snd (run a samples s) = [] \<and> bypass_controller (fst (run a samples s)) \<and>
     control_mode_established (fst (run a samples s)) = control_mode_established s"
proof (induction samples arbitrary: s)
  case Nil
  then show ?case by simp
next
  case (Cons i samples)
  from Cons.prems have st: "snd (step a i s) = [] \<and> bypass_controller (fst (step a i s)) \<and>
      control_mode_established (fst (step a i s)) = control_mode_established s"
    by (cases i) (simp_all add: state_callback_def ref_pose_callback_def
        ref_twist_callback_def ref_traj_callback_def)
  from Cons.prems have "list_all is_sample samples" by simp
  with st Cons.IH [of "fst (step a i s)"] show ?case
    by (simp only: run_Cons_fst run_Cons_snd) simp
qed

lemma request_failure:
  assumes "fst (request_and_set_mode a e request c s) \<noteq> None" and "\<not> control_mode_established s"
  shows "(fst (request_and_set_mode a e request c s) = Some PlatformRejected \<or>
          fst (request_and_set_mode a e request c s) = Some SubclassRejected) \<and>
         \<not> control_mode_established (snd (request_and_set_mode a e request c s))"
  using assms by (simp add: request_and_set_mode_def Let_def split: if_splits)

lemma srv_bypass_failure:
  assumes "use_bypass s"
    and "setControlModeSrvCall a e request s = (r, s')"
    and "tryToBypassController s' (input_control_mode_desired a request) \<noteq> None"
    and "r \<noteq> None"
  shows "(r = Some PlatformRejected \<or> r = Some SubclassRejected) \<and>
         bypass_controller s' \<and> \<not> control_mode_established s'"
proof (cases rule: srv_cases [of s e a request])
  case (ListFailed err)
  from ListFailed(4) assms(2)
  have "(r, s') = (Some err, s\<lparr> control_mode_established := False \<rparr>)"
    by (simp only:)
  then have "s' = s\<lparr> control_mode_established := False \<rparr>"
    by (simp only: prod.inject)
  then have "platform_available_modes_in s' = platform_available_modes_in s"
    by simp
  with ListFailed(1) have "platform_available_modes_in s' = []"
    by (simp only:)
  then have "tryToBypassController s' (input_control_mode_desired a request) = None"
    by (simp add: tryToBypassController_def findBestMatchWithMask_def)
  with assms(3) show ?thesis by simp
next
  case (SelectFailed s1 err)
  let ?d = "input_control_mode_desired a request"
  from assms(2) SelectFailed(3) have s': "s' = snd (select_output_candidate ?d s1)" by simp
  then have "platform_available_modes_in s1 = platform_available_modes_in s'"
    by (simp add: select_state)
  then have "tryToBypassController s1 ?d = tryToBypassController s' ?d"
    by (rule tryToBypassController_reads)
  with assms(3) obtain c where c: "tryToBypassController s1 ?d = Some c" by auto
  from list_ok [OF SelectFailed(1)] assms(1) have "use_bypass s1" by simp
  from select_bypass [OF this c] SelectFailed(2) show ?thesis by simp
next
  case (Requested s1 c)
  let ?d = "input_control_mode_desired a request"
  let ?s2 = "snd (select_output_candidate ?d s1)"
  from assms(2) Requested(3) have s': "s' = snd (request_and_set_mode a e request c ?s2)"
    and r: "r = fst (request_and_set_mode a e request c ?s2)" by simp_all
  have "platform_available_modes_in s1 = platform_available_modes_in s'"
    unfolding s' by (simp add: request_keeps select_state)
  then have "tryToBypassController s1 ?d = tryToBypassController s' ?d"
    by (rule tryToBypassController_reads)
  with assms(3) have c: "tryToBypassController s1 ?d \<noteq> None" by simp
  from list_ok [OF Requested(1)] assms(1) have u: "use_bypass s1" "\<not> control_mode_established s1"
    by simp_all
  with c have b: "bypass_controller ?s2" "\<not> control_mode_established ?s2"
    by (simp_all add: select_state)
  from request_failure [of a e request c ?s2] assms(4) b r s' request_keeps [of a e request c ?s2]
  show ?thesis by simp
qed

lemma srv_keeps_references:
  "ref_pose (snd (setControlModeSrvCall a e request s)) = ref_pose s \<and>
   ref_twist (snd (setControlModeSrvCall a e request s)) = ref_twist s"
proof (cases rule: srv_cases [of s e a request])
  case (ListFailed err)
  then show ?thesis by simp
next
  case (SelectFailed s1 err)
  have "ref_pose s1 = ref_pose s \<and> ref_twist s1 = ref_twist s"
    by (subst (1 2) list_ok_state [OF SelectFailed(1)]) simp
  with SelectFailed(3) show ?thesis by (simp add: select_state)
next
  case (Requested s1 c)
  have "ref_pose s1 = ref_pose s \<and> ref_twist s1 = ref_twist s"
    by (subst (1 2) list_ok_state [OF Requested(1)]) simp
  with Requested(3) show ?thesis
    by (simp add: select_state request_and_set_mode_def Let_def)
qed

section \<open>The claims\<close>

text \<open>
  C1 (as the code has it). A controller configures the output modes \<open>{0x21, 0x12}\<close>
  (stored sorted, \<open>[0x12, 0x21]\<close>), the platform list is exactly \<open>[0x12]\<close> (already
  cached, or fetched by this request) and no preferred output mode is set. The scan of the output modes skips \<open>0x12\<close>, whose class
  nibble is the hover class, and \<open>0x21\<close> has no byte-identical platform mode: no output
  mode is selected and every request fails with \<open>NoSuitableOutputMode\<close>. In general,
  with no preferred output mode, an output mode the scan selects is a mode of the platform
  list that is byte-identical to a mode of the controller's list whose class is neither
  UNSET nor HOVER.
\<close>

theorem C1_output_scan:
  fixes s0 s :: "('m, 'p, 't, 'j) ControllerBase"
  shows
  "(prefered_output_mode s0 = 0 \<and> platform_available_modes_in s0 = [0x12] \<longrightarrow>
      findSuitableOutputControlModeForPlatformInputMode
        (setOutputControlModesAvailables [0x21, 0x12] s0) d = None) \<and>
   (prefered_output_mode s0 = 0 \<and>
    (platform_available_modes_in s0 = [0x12] \<or>
     platform_available_modes_in s0 = [] \<and> list_out e \<and> list_control_modes e = [0x12]) \<longrightarrow>
      fst (setControlModeSrvCall a e request (setOutputControlModesAvailables [0x21, 0x12] s0))
        = Some NoSuitableOutputMode) \<and>
   (prefered_output_mode s = 0 \<and>
    findSuitableOutputControlModeForPlatformInputMode s d = Some m \<longrightarrow>
      m \<in> set (platform_available_modes_in s) \<and>
      m \<in> set (controller_available_modes_out s) \<and>
      (m AND MATCH_MODE) \<noteq> UNSET_MODE_MASK \<and> (m AND MATCH_MODE) \<noteq> HOVER_MODE_MASK)"
proof -
  let ?s = "setOutputControlModesAvailables [0x21, 0x12] s0"
  have scan: "findSuitableOutputControlModeForPlatformInputMode
        (setOutputControlModesAvailables [0x21, 0x12] t) d' = None"
    if "prefered_output_mode t = 0" and "platform_available_modes_in t = [0x12]"
    for t :: "('m, 'p, 't, 'j) ControllerBase" and d'
    using that
    by (intro findSuitable_modes_0x21_0x12) (simp_all add: setOutputControlModesAvailables_def)
  have listed: "fst (setControlModeSrvCall a e request (setOutputControlModesAvailables [0x21, 0x12] t))
        = Some NoSuitableOutputMode"
    if t: "prefered_output_mode t = 0" "platform_available_modes_in t = [0x12]"
    for t :: "('m, 'p, 't, 'j) ControllerBase"
  proof -
    let ?t = "setOutputControlModesAvailables [0x21, 0x12] t"
    let ?t1 = "?t\<lparr> control_mode_established := False \<rparr>"
    have t1: "prefered_output_mode ?t1 = 0"
      "controller_available_modes_out ?t1 = sort [0x21, 0x12]"
      "platform_available_modes_in ?t1 = [0x12]"
      using t by (simp_all add: setOutputControlModesAvailables_def)
    have p: "platform_available_modes_in ?t \<noteq> []"
      using t by (simp add: setOutputControlModesAvailables_def)
    have "use_bypass ?t1 \<longrightarrow>
        tryToBypassController ?t1 (input_control_mode_desired a request) = None"
      using tryToBypassController_only_0x12 [OF t1(3)] by simp
    then show ?thesis
      by (simp add: srv_listed [OF p] select_direct findSuitable_modes_0x21_0x12 [OF t1])
  qed
  have 1: "prefered_output_mode s0 = 0 \<and> platform_available_modes_in s0 = [0x12] \<longrightarrow>
      findSuitableOutputControlModeForPlatformInputMode ?s d = None"
    using scan [of s0 d] by blast
  have 2: "prefered_output_mode s0 = 0 \<and>
    (platform_available_modes_in s0 = [0x12] \<or>
     platform_available_modes_in s0 = [] \<and> list_out e \<and> list_control_modes e = [0x12]) \<longrightarrow>
      fst (setControlModeSrvCall a e request ?s) = Some NoSuitableOutputMode"
  proof
    assume h: "prefered_output_mode s0 = 0 \<and>
      (platform_available_modes_in s0 = [0x12] \<or>
       platform_available_modes_in s0 = [] \<and> list_out e \<and> list_control_modes e = [0x12])"
    show "fst (setControlModeSrvCall a e request ?s) = Some NoSuitableOutputMode"
    proof (cases "platform_available_modes_in s0 = [0x12]")
      case True
      with h listed [of s0] show ?thesis by blast
    next
      case False
      with h have f: "platform_available_modes_in s0 = []" "list_out e"
        "list_control_modes e = [0x12]" by auto
      let ?t = "s0\<lparr> platform_available_modes_in := [0x12] \<rparr>"
      have "?s\<lparr> platform_available_modes_in := [0x12] \<rparr>
          = setOutputControlModesAvailables [0x21, 0x12] ?t"
        unfolding setOutputControlModesAvailables_def by (cases s0) simp
      moreover have "platform_available_modes_in ?s = []"
        using f by (simp add: setOutputControlModesAvailables_def)
      ultimately have "setControlModeSrvCall a e request ?s
          = setControlModeSrvCall a e request (setOutputControlModesAvailables [0x21, 0x12] ?t)"
        using f srv_fetched [of ?s e a request] by simp
      moreover have "prefered_output_mode ?t = 0" "platform_available_modes_in ?t = [0x12]"
        using h by simp_all
      ultimately show ?thesis using listed [of ?t] by simp
    qed
  qed
  have 3: "prefered_output_mode s = 0 \<and>
    findSuitableOutputControlModeForPlatformInputMode s d = Some m \<longrightarrow>
      m \<in> set (platform_available_modes_in s) \<and>
      m \<in> set (controller_available_modes_out s) \<and>
      (m AND MATCH_MODE) \<noteq> UNSET_MODE_MASK \<and> (m AND MATCH_MODE) \<noteq> HOVER_MODE_MASK"
    using findSuitable_no_preference [of s d m] by blast
  from 1 2 3 show ?thesis by (intro conjI)
qed

text \<open>C1 on two concrete nodes.\<close>

theorem C1_output_scan_witness:
  "findSuitableOutputControlModeForPlatformInputMode
     (setOutputControlModesAvailables [0x21, 0x12]
        (fst (node_run False [SetControlMode 0x61 (accepting_env [0x12])]))) 0x61 = None \<and>
   fst (setControlModeSrvCall code_as2 (accepting_env [0x12]) 0x61
     (setOutputControlModesAvailables [0x21, 0x12]
        (fst (node_run False [SetControlMode 0x61 (accepting_env [0x12])]))))
     = Some NoSuitableOutputMode \<and>
   fst (setControlModeSrvCall code_as2 (accepting_env [0x12]) 0x61
     (setOutputControlModesAvailables [0x21, 0x12] (node0 True)))
     = Some NoSuitableOutputMode \<and>
   findSuitableOutputControlModeForPlatformInputMode
     (fst (node_run False [SetOutputModes [0x30, 0x20], SetControlMode 0x61 (accepting_env [0x30])]))
     0x61 = Some 0x30 \<and>
   0x30 \<in> set (platform_available_modes_in
     (fst (node_run False [SetOutputModes [0x30, 0x20], SetControlMode 0x61 (accepting_env [0x30])]))) \<and>
   0x30 \<in> set (controller_available_modes_out
     (fst (node_run False [SetOutputModes [0x30, 0x20], SetControlMode 0x61 (accepting_env [0x30])]))) \<and>
   (0x30 AND MATCH_MODE) \<noteq> UNSET_MODE_MASK \<and> (0x30 AND MATCH_MODE) \<noteq> HOVER_MODE_MASK"
proof -
  have cached: "findSuitableOutputControlModeForPlatformInputMode
     (setOutputControlModesAvailables [0x21, 0x12]
        (fst (node_run False [SetControlMode 0x61 (accepting_env [0x12])]))) 0x61 = None \<and>
   fst (setControlModeSrvCall code_as2 (accepting_env [0x12]) 0x61
     (setOutputControlModesAvailables [0x21, 0x12]
        (fst (node_run False [SetControlMode 0x61 (accepting_env [0x12])]))))
     = Some NoSuitableOutputMode"
    using C1_output_scan [where
      ?s0.0 = "fst (node_run False [SetControlMode 0x61 (accepting_env [0x12])])" and
      d = "0x61" and a = code_as2 and e = "accepting_env [0x12]" and request = "0x61"]
    by (simp add: model_defs)
  have fetched: "fst (setControlModeSrvCall code_as2 (accepting_env [0x12]) 0x61
     (setOutputControlModesAvailables [0x21, 0x12] (node0 True)))
     = Some NoSuitableOutputMode"
    using C1_output_scan [where ?s0.0 = "node0 True" and
      a = code_as2 and e = "accepting_env [0x12]" and request = "0x61"]
    by (simp add: model_defs)
  have selected: "findSuitableOutputControlModeForPlatformInputMode
     (fst (node_run False [SetOutputModes [0x30, 0x20], SetControlMode 0x61 (accepting_env [0x30])]))
     0x61 = Some 0x30 \<and>
   0x30 \<in> set (platform_available_modes_in
     (fst (node_run False [SetOutputModes [0x30, 0x20], SetControlMode 0x61 (accepting_env [0x30])]))) \<and>
   0x30 \<in> set (controller_available_modes_out
     (fst (node_run False [SetOutputModes [0x30, 0x20], SetControlMode 0x61 (accepting_env [0x30])]))) \<and>
   (0x30 AND MATCH_MODE) \<noteq> UNSET_MODE_MASK \<and> (0x30 AND MATCH_MODE) \<noteq> HOVER_MODE_MASK"
    using C1_output_scan [where d = "0x61" and
      s = "fst (node_run False [SetOutputModes [0x30, 0x20], SetControlMode 0x61 (accepting_env [0x30])])"
      and m = "0x30"]
    by (simp add: model_defs)
  from cached fetched selected show ?thesis by (intro conjI) simp_all
qed

text \<open>
  The run that C1 describes, from the start of the node: the response is
  \<open>NoSuitableOutputMode\<close>, not a selection of \<open>0x12\<close>.
\<close>

theorem C1_counterexample:
  "snd (node_run False [SetOutputModes [0x21, 0x12], SetControlMode 0x61 (accepting_env [0x12])])
     = [ServiceResponse (Some NoSuitableOutputMode)] \<and>
   controller_available_modes_out
     (fst (node_run False [SetOutputModes [0x21, 0x12], SetControlMode 0x61 (accepting_env [0x12])]))
     = [0x12, 0x21] \<and>
   platform_available_modes_in
     (fst (node_run False [SetOutputModes [0x21, 0x12], SetControlMode 0x61 (accepting_env [0x12])]))
     = [0x12] \<and>
   prefered_output_mode
     (fst (node_run False [SetOutputModes [0x21, 0x12], SetControlMode 0x61 (accepting_env [0x12])]))
     = 0 \<and>
   findSuitableOutputControlModeForPlatformInputMode
     (fst (node_run False [SetOutputModes [0x21, 0x12], SetControlMode 0x61 (accepting_env [0x12])]))
     0x61 = None"
  by (simp add: model_defs)

text \<open>
  C2 (as the code has it). For an input/output pair that \<^verbatim>\<open>checkSuitabilityInputMode\<close>
  validates on the path without bypass: unless the input is of the hover class and the
  controller's input list holds the bare hover code \<open>0x10\<close> (then the function returns
  true before the level comparison), an input class nibble strictly below the output class
  nibble is rejected with \<open>IncompatibleModeLevel\<close>, by the function and by the whole
  service call (for outputs with bit 7 clear); and the level comparison accepts whenever the
  input class nibble is at least the output class nibble (for outputs with bit 3 clear).
  Line 280 masks the output with \<open>0x78\<close>, not with \<open>MATCH_MODE\<close>; the statement is
  silent about outputs on which the two masks differ.
\<close>

theorem C2_level_check:
  "((inp AND MATCH_MODE) < (out AND MATCH_MODE) \<and> out AND 0x80 = 0 \<and>
      \<not> ((inp AND MATCH_MODE) = HOVER_MODE_MASK \<and>
         HOVER_MODE_MASK \<in> set (controller_available_modes_in s))
      \<longrightarrow> checkSuitabilityInputMode s inp out = Some IncompatibleModeLevel) \<and>
   ((out AND MATCH_MODE) \<le> (inp AND MATCH_MODE) \<and> out AND 0x08 = 0
      \<longrightarrow> checkSuitabilityInputMode s inp out \<noteq> Some IncompatibleModeLevel) \<and>
   (platform_available_modes_in s \<noteq> [] \<and>
    (use_bypass s \<longrightarrow>
       tryToBypassController s (input_control_mode_desired a request) = None) \<and>
    findSuitableOutputControlModeForPlatformInputMode s (input_control_mode_desired a request)
      = Some out \<and>
    (input_control_mode_desired a request AND MATCH_MODE) < (out AND MATCH_MODE) \<and>
    out AND 0x80 = 0 \<and>
    \<not> ((input_control_mode_desired a request AND MATCH_MODE) = HOVER_MODE_MASK \<and>
       HOVER_MODE_MASK \<in> set (controller_available_modes_in s))
      \<longrightarrow> fst (setControlModeSrvCall a e request s) = Some IncompatibleModeLevel)"
proof -
  have lower: "checkSuitabilityInputMode s i out = Some IncompatibleModeLevel"
    if a: "(i AND MATCH_MODE) < (out AND MATCH_MODE) \<and> out AND 0x80 = 0 \<and>
      \<not> ((i AND MATCH_MODE) = HOVER_MODE_MASK \<and>
         HOVER_MODE_MASK \<in> set (controller_available_modes_in s))" for i
  proof -
    from a have "scan_available_modes_in i (controller_available_modes_in s) \<noteq> ReturnTrue"
      using scan_available_modes_in_ReturnTrue by blast
    moreover from a have "(i AND MATCH_MODE) < (out AND 0x78)"
      by (simp add: level_lower_detected)
    ultimately show ?thesis
      by (simp add: checkSuitabilityInputMode_def split: mode_scan.splits)
  qed
  have 1: "(inp AND MATCH_MODE) < (out AND MATCH_MODE) \<and> out AND 0x80 = 0 \<and>
      \<not> ((inp AND MATCH_MODE) = HOVER_MODE_MASK \<and>
         HOVER_MODE_MASK \<in> set (controller_available_modes_in s))
      \<longrightarrow> checkSuitabilityInputMode s inp out = Some IncompatibleModeLevel"
    using lower [of inp] by blast
  have 2: "(out AND MATCH_MODE) \<le> (inp AND MATCH_MODE) \<and> out AND 0x08 = 0
      \<longrightarrow> checkSuitabilityInputMode s inp out \<noteq> Some IncompatibleModeLevel"
  proof
    assume "(out AND MATCH_MODE) \<le> (inp AND MATCH_MODE) \<and> out AND 0x08 = 0"
    then have "\<not> (inp AND MATCH_MODE) < (out AND 0x78)"
      by (simp add: level_not_lower_passes)
    then show "checkSuitabilityInputMode s inp out \<noteq> Some IncompatibleModeLevel"
      by (simp add: checkSuitabilityInputMode_def split: mode_scan.splits)
  qed
  have 3: "platform_available_modes_in s \<noteq> [] \<and>
    (use_bypass s \<longrightarrow>
       tryToBypassController s (input_control_mode_desired a request) = None) \<and>
    findSuitableOutputControlModeForPlatformInputMode s (input_control_mode_desired a request)
      = Some out \<and>
    (input_control_mode_desired a request AND MATCH_MODE) < (out AND MATCH_MODE) \<and>
    out AND 0x80 = 0 \<and>
    \<not> ((input_control_mode_desired a request AND MATCH_MODE) = HOVER_MODE_MASK \<and>
       HOVER_MODE_MASK \<in> set (controller_available_modes_in s))
      \<longrightarrow> fst (setControlModeSrvCall a e request s) = Some IncompatibleModeLevel"
  proof
    assume h: "platform_available_modes_in s \<noteq> [] \<and>
      (use_bypass s \<longrightarrow>
         tryToBypassController s (input_control_mode_desired a request) = None) \<and>
      findSuitableOutputControlModeForPlatformInputMode s (input_control_mode_desired a request)
        = Some out \<and>
      (input_control_mode_desired a request AND MATCH_MODE) < (out AND MATCH_MODE) \<and>
      out AND 0x80 = 0 \<and>
      \<not> ((input_control_mode_desired a request AND MATCH_MODE) = HOVER_MODE_MASK \<and>
         HOVER_MODE_MASK \<in> set (controller_available_modes_in s))"
    then have "checkSuitabilityInputMode s (input_control_mode_desired a request) out
        = Some IncompatibleModeLevel"
      using lower [of "input_control_mode_desired a request"] by blast
    with h show "fst (setControlModeSrvCall a e request s) = Some IncompatibleModeLevel"
      using srv_direct_rejected [of s a request out IncompatibleModeLevel e] by blast
  qed
  from 1 2 3 show ?thesis by (intro conjI)
qed

text \<open>C2 on concrete modes: classes \<open>0x20\<close> against \<open>0x30\<close> and back.\<close>

theorem C2_level_check_witness:
  "checkSuitabilityInputMode (fst (node_run False [SetInputModes [0x20, 0x30]])) 0x20 0x30
     = Some IncompatibleModeLevel \<and>
   checkSuitabilityInputMode (fst (node_run False [SetInputModes [0x20, 0x30]])) 0x30 0x20
     \<noteq> Some IncompatibleModeLevel \<and>
   fst (setControlModeSrvCall code_as2 (accepting_env [0x30]) 0x20
     (fst (node_run False [SetInputModes [0x20], SetOutputModes [0x30],
                           SetControlMode 0x20 (accepting_env [0x30])])))
     = Some IncompatibleModeLevel"
proof -
  have 1: "checkSuitabilityInputMode (fst (node_run False [SetInputModes [0x20, 0x30]])) 0x20 0x30
     = Some IncompatibleModeLevel"
    using C2_level_check [where inp = "0x20" and out = "0x30" and
        s = "fst (node_run False [SetInputModes [0x20, 0x30]])"]
    by (simp add: model_defs)
  have 2: "checkSuitabilityInputMode (fst (node_run False [SetInputModes [0x20, 0x30]])) 0x30 0x20
     \<noteq> Some IncompatibleModeLevel"
    using C2_level_check [where inp = "0x30" and out = "0x20" and
        s = "fst (node_run False [SetInputModes [0x20, 0x30]])"]
    by (simp add: model_defs)
  have 3: "fst (setControlModeSrvCall code_as2 (accepting_env [0x30]) 0x20
     (fst (node_run False [SetInputModes [0x20], SetOutputModes [0x30],
                           SetControlMode 0x20 (accepting_env [0x30])])))
     = Some IncompatibleModeLevel"
    using C2_level_check [where out = "0x30" and a = code_as2 and request = "0x20" and
        e = "accepting_env [0x30]" and
        s = "fst (node_run False [SetInputModes [0x20], SetOutputModes [0x30],
                           SetControlMode 0x20 (accepting_env [0x30])])"]
    by (simp add: model_defs)
  from 1 2 3 show ?thesis by (intro conjI)
qed

text \<open>
  A hover request with the controller accepting \<open>0x10\<close> and output \<open>0x20\<close>: the input
  class nibble is lower, and the negotiation succeeds.
\<close>

theorem C2_counterexample:
  "snd (node_run False [SetInputModes [0x10], SetOutputModes [0x20],
                        SetControlMode 0x10 (accepting_env [0x20])])
     = [ServiceResponse None] \<and>
   checkSuitabilityInputMode (fst (node_run False [SetInputModes [0x10]])) 0x10 0x20 = None \<and>
   (0x10 AND MATCH_MODE) < (0x20 AND MATCH_MODE)"
  by (simp add: model_defs)

text \<open>
  C3. With bypass enabled, a state sample and a reference sample arrive and then a request
  for \<open>0x55\<close> is negotiated against a platform that lists \<open>0x55\<close>. The negotiation takes
  the bypass path and reports success, and both acquired flags are still set afterwards:
  the \<^verbatim>\<open>return\<close> of line 411 leaves before lines 426--427. (On the direct path a
  success clears both flags, \<open>srv_direct_clears_acquired\<close>; success and the established
  flag agree on every path, \<open>srv_success_iff_established\<close>.)
\<close>

theorem C3_bypass_success_keeps_flags:
  "snd (node_run True [StateSample (msg0 1 11) (msg0 1 12), RefPose (msg0 2 21),
                       SetControlMode 0x55 (accepting_env [0x55])])
     = [UpdateState (msg0 1 11) (msg0 1 12), UpdateReferencePose (msg0 2 21),
        ServiceResponse None] \<and>
   bypass_controller
     (fst (node_run True [StateSample (msg0 1 11) (msg0 1 12), RefPose (msg0 2 21),
                          SetControlMode 0x55 (accepting_env [0x55])])) \<and>
   control_mode_established
     (fst (node_run True [StateSample (msg0 1 11) (msg0 1 12), RefPose (msg0 2 21),
                          SetControlMode 0x55 (accepting_env [0x55])])) \<and>
   state_adquired
     (fst (node_run True [StateSample (msg0 1 11) (msg0 1 12), RefPose (msg0 2 21),
                          SetControlMode 0x55 (accepting_env [0x55])])) \<and>
   motion_reference_adquired
     (fst (node_run True [StateSample (msg0 1 11) (msg0 1 12), RefPose (msg0 2 21),
                          SetControlMode 0x55 (accepting_env [0x55])]))"
  by (simp add: model_defs)

text \<open>
  C4. In every state the node can be in, that is after any run of callbacks from
  \<^verbatim>\<open>initialize\<close>, a negotiation that finds the platform list empty and whose list
  request brings back an empty list fails (\<open>NoAvailableModes\<close> when the request itself
  succeeded, \<open>PlatformQueryError\<close> when it did not), and the established flag has the
  value it had before the request. Line 333 writes false to the flag, but the flag can only
  be true once the list is filled, and the list is never emptied.
\<close>

theorem C4_empty_platform_list:
  assumes "s = fst (run a inputs (initialize use_bypass_param unset_mode pose0 twist0 traj0))"
    and "platform_available_modes_in s = []"
    and "list_control_modes e = []"
  shows "fst (setControlModeSrvCall a e request s)
           = Some (if list_out e then NoAvailableModes else PlatformQueryError) \<and>
         \<not> success (fst (setControlModeSrvCall a e request s)) \<and>
         control_mode_established (snd (setControlModeSrvCall a e request s))
           = control_mode_established s \<and>
         platform_available_modes_in (snd (setControlModeSrvCall a e request s)) = []"
proof -
  have "listed_when_established s"
    unfolding assms(1)
    by (rule run_listed_when_established [OF initialize_listed_when_established])
  with assms(2) have "\<not> control_mode_established s"
    by (simp add: listed_when_established_def)
  with assms(2,3) show ?thesis
    by (simp add: setControlModeSrvCall_def listPlatformAvailableControlModes_def success_def)
qed

text \<open>C4 on a node whose first request already met an empty platform list.\<close>

theorem C4_empty_platform_list_witness:
  "fst (setControlModeSrvCall code_as2 (accepting_env []) 0x61
         (fst (node_run False [SetInputModes [0x61], StateSample (msg0 1 11) (msg0 1 12),
                               SetControlMode 0x61 (accepting_env [])])))
     = Some NoAvailableModes \<and>
   \<not> success (fst (setControlModeSrvCall code_as2 (accepting_env []) 0x61
         (fst (node_run False [SetInputModes [0x61], StateSample (msg0 1 11) (msg0 1 12),
                               SetControlMode 0x61 (accepting_env [])])))) \<and>
   control_mode_established (snd (setControlModeSrvCall code_as2 (accepting_env []) 0x61
         (fst (node_run False [SetInputModes [0x61], StateSample (msg0 1 11) (msg0 1 12),
                               SetControlMode 0x61 (accepting_env [])]))))
     = control_mode_established
         (fst (node_run False [SetInputModes [0x61], StateSample (msg0 1 11) (msg0 1 12),
                               SetControlMode 0x61 (accepting_env [])]))"
proof -
  let ?inputs = "[SetInputModes [0x61], StateSample (msg0 1 11) (msg0 1 12),
                  SetControlMode 0x61 (accepting_env [])] :: (uint8_t, int, int, int, int) input list"
  have run: "fst (node_run False ?inputs)
      = fst (run code_as2 ?inputs (initialize False 0 (msg0 0 0) (msg0 0 0) 0))"
    by (simp add: node_run_def node0_def)
  have empty: "platform_available_modes_in (fst (node_run False ?inputs)) = []"
    by (simp add: model_defs)
  have reply: "list_control_modes (accepting_env []) = []"
    by (simp add: accepting_env_def)
  have answered: "list_out (accepting_env [])"
    by (simp add: accepting_env_def)
  from C4_empty_platform_list [OF run empty reply, of "0x61"] answered show ?thesis
    by (simp add: success_def)
qed

text \<open>
  C5 (as the code has it). When bypass is active and the reference-acquired flag is set, an
  eligible tick (armed, offboard, established, state acquired) publishes exactly the cached
  reference pose and the cached reference twist, unchanged, the time stamp of their headers
  included, and does not call \<^verbatim>\<open>computeOutput\<close>. The cached reference pose (twist) is
  the message of the last reference-pose (reference-twist) callback: no other callback
  writes it.
\<close>

theorem C5_bypass_republishes:
  "(bypass_controller s \<and> motion_reference_adquired s \<and>
    offboard (platform_info s) \<and> armed (platform_info s) \<and>
    control_mode_established s \<and> state_adquired s \<longrightarrow>
      control_timer_callback now computed s
        = [PublishPose (ref_pose s), PublishTwist (ref_twist s)] \<and>
      ComputeOutput \<notin> set (control_timer_callback now computed s)) \<and>
   ref_pose (fst (step a i s)) = (case i of RefPose msg \<Rightarrow> msg | _ \<Rightarrow> ref_pose s) \<and>
   ref_twist (fst (step a i s)) = (case i of RefTwist msg \<Rightarrow> msg | _ \<Rightarrow> ref_twist s)"
proof (intro conjI)
  show "bypass_controller s \<and> motion_reference_adquired s \<and>
    offboard (platform_info s) \<and> armed (platform_info s) \<and>
    control_mode_established s \<and> state_adquired s \<longrightarrow>
      control_timer_callback now computed s
        = [PublishPose (ref_pose s), PublishTwist (ref_twist s)] \<and>
      ComputeOutput \<notin> set (control_timer_callback now computed s)"
    by (simp add: control_timer_callback_def sendCommand_def)
next
  show "ref_pose (fst (step a i s)) = (case i of RefPose msg \<Rightarrow> msg | _ \<Rightarrow> ref_pose s)"
  proof (cases i)
    case (SetControlMode request e)
    show ?thesis
      using srv_keeps_references [of a e request s]
      by (cases "setControlModeSrvCall a e request s") (simp add: SetControlMode)
  qed (simp_all add: state_callback_def ref_pose_callback_def ref_twist_callback_def
      ref_traj_callback_def platform_info_callback_def
      setInputControlModesAvailables_def setOutputControlModesAvailables_def)
next
  show "ref_twist (fst (step a i s)) = (case i of RefTwist msg \<Rightarrow> msg | _ \<Rightarrow> ref_twist s)"
  proof (cases i)
    case (SetControlMode request e)
    show ?thesis
      using srv_keeps_references [of a e request s]
      by (cases "setControlModeSrvCall a e request s") (simp add: SetControlMode)
  qed (simp_all add: state_callback_def ref_pose_callback_def ref_twist_callback_def
      ref_traj_callback_def platform_info_callback_def
      setInputControlModesAvailables_def setOutputControlModesAvailables_def)
qed

text \<open>C5 on a node in bypass with both references received.\<close>

theorem C5_bypass_republishes_witness:
  "control_timer_callback 9 (msg0 0 31, msg0 0 32, msg0 0 33)
     (fst (node_run True [PlatformInfoMsg \<lparr> armed = True, offboard = True \<rparr>,
                          SetControlMode 0x55 (accepting_env [0x55]),
                          StateSample (msg0 1 11) (msg0 1 12),
                          RefPose (msg0 2 21), RefTwist (msg0 3 22)]))
     = [PublishPose (msg0 2 21), PublishTwist (msg0 3 22)] \<and>
   ComputeOutput \<notin> set (control_timer_callback 9 (msg0 0 31, msg0 0 32, msg0 0 33)
     (fst (node_run True [PlatformInfoMsg \<lparr> armed = True, offboard = True \<rparr>,
                          SetControlMode 0x55 (accepting_env [0x55]),
                          StateSample (msg0 1 11) (msg0 1 12),
                          RefPose (msg0 2 21), RefTwist (msg0 3 22)])))"
proof -
  let ?s = "fst (node_run True [PlatformInfoMsg \<lparr> armed = True, offboard = True \<rparr>,
                          SetControlMode 0x55 (accepting_env [0x55]),
                          StateSample (msg0 1 11) (msg0 1 12),
                          RefPose (msg0 2 21), RefTwist (msg0 3 22)])"
  have h: "bypass_controller ?s \<and> motion_reference_adquired ?s \<and>
    offboard (platform_info ?s) \<and> armed (platform_info ?s) \<and>
    control_mode_established ?s \<and> state_adquired ?s"
    by (simp add: model_defs)
  have refs: "ref_pose ?s = msg0 2 21 \<and> ref_twist ?s = msg0 3 22"
    by (simp add: model_defs)
  from C5_bypass_republishes [where s = ?s and now = 9
      and computed = "(msg0 0 31, msg0 0 32, msg0 0 33)"
      and a = code_as2 and i = "RefPose (msg0 2 21)"] h
  have "control_timer_callback 9 (msg0 0 31, msg0 0 32, msg0 0 33) ?s
        = [PublishPose (ref_pose ?s), PublishTwist (ref_twist ?s)] \<and>
      ComputeOutput \<notin> set (control_timer_callback 9 (msg0 0 31, msg0 0 32, msg0 0 33) ?s)"
    by blast
  with refs show ?thesis by simp
qed

text \<open>
  A tick at clock reading 9 in bypass republishes the references with their own stamps 2
  and 3: no fresh time stamp is written.
\<close>

theorem C5_counterexample:
  "control_timer_callback 9 (msg0 0 31, msg0 0 32, msg0 0 33)
     (fst (node_run True [PlatformInfoMsg \<lparr> armed = True, offboard = True \<rparr>,
                          SetControlMode 0x55 (accepting_env [0x55]),
                          StateSample (msg0 1 11) (msg0 1 12),
                          RefPose (msg0 2 21), RefTwist (msg0 3 22)]))
     = [PublishPose \<lparr> header = \<lparr> stamp = 2, frame_id = ''earth'' \<rparr>, payload = 21 \<rparr>,
        PublishTwist \<lparr> header = \<lparr> stamp = 3, frame_id = ''earth'' \<rparr>, payload = 22 \<rparr>]"
  by (simp add: model_defs)

text \<open>
  C6 (as the code has it). The scan of the controller's input list accepts a desired input
  mode if and only if either its class nibble is the hover class and the list holds the
  bare hover code \<open>0x10\<close> (line 267 compares the masked input with the list entry
  itself), or it is byte-identical to some entry. When the scan accepts and the level
  comparison passes, the function returns true. When the scan does not accept, the function
  returns false, at line 287 (\<open>UnsupportedInputMode\<close>) if the level comparison passes and
  at line 284 (\<open>IncompatibleModeLevel\<close>) if it does not, and the service call on the
  path without bypass fails in the same way.
\<close>

theorem C6_membership:
  "(scan_available_modes_in inp (controller_available_modes_in s) \<noteq> ModeNotFound \<longleftrightarrow>
      ((inp AND MATCH_MODE) = HOVER_MODE_MASK \<and>
       HOVER_MODE_MASK \<in> set (controller_available_modes_in s))
      \<or> inp \<in> set (controller_available_modes_in s)) \<and>
   (scan_available_modes_in inp (controller_available_modes_in s) = ModeNotFound \<longrightarrow>
      checkSuitabilityInputMode s inp out =
        Some (if (inp AND MATCH_MODE) < (out AND 0x78) then IncompatibleModeLevel
              else UnsupportedInputMode)) \<and>
   (scan_available_modes_in inp (controller_available_modes_in s) \<noteq> ModeNotFound \<and>
      \<not> (inp AND MATCH_MODE) < (out AND 0x78) \<longrightarrow>
      checkSuitabilityInputMode s inp out = None) \<and>
   (platform_available_modes_in s \<noteq> [] \<and>
    (use_bypass s \<longrightarrow>
       tryToBypassController s (input_control_mode_desired a request) = None) \<and>
    findSuitableOutputControlModeForPlatformInputMode s (input_control_mode_desired a request)
      = Some out \<and>
    scan_available_modes_in (input_control_mode_desired a request)
      (controller_available_modes_in s) = ModeNotFound
      \<longrightarrow> fst (setControlModeSrvCall a e request s) =
            Some (if (input_control_mode_desired a request AND MATCH_MODE) < (out AND 0x78)
                  then IncompatibleModeLevel else UnsupportedInputMode))"
proof -
  have 1: "scan_available_modes_in inp (controller_available_modes_in s) \<noteq> ModeNotFound \<longleftrightarrow>
      ((inp AND MATCH_MODE) = HOVER_MODE_MASK \<and>
       HOVER_MODE_MASK \<in> set (controller_available_modes_in s))
      \<or> inp \<in> set (controller_available_modes_in s)"
    by (rule scan_available_modes_in_found)
  have nf: "checkSuitabilityInputMode s i out =
        Some (if (i AND MATCH_MODE) < (out AND 0x78) then IncompatibleModeLevel
              else UnsupportedInputMode)"
    if "scan_available_modes_in i (controller_available_modes_in s) = ModeNotFound" for i
    using that by (simp add: checkSuitabilityInputMode_def)
  have 2: "scan_available_modes_in inp (controller_available_modes_in s) = ModeNotFound \<longrightarrow>
      checkSuitabilityInputMode s inp out =
        Some (if (inp AND MATCH_MODE) < (out AND 0x78) then IncompatibleModeLevel
              else UnsupportedInputMode)"
    using nf [of inp] by blast
  have 3: "scan_available_modes_in inp (controller_available_modes_in s) \<noteq> ModeNotFound \<and>
      \<not> (inp AND MATCH_MODE) < (out AND 0x78) \<longrightarrow>
      checkSuitabilityInputMode s inp out = None"
    by (cases "scan_available_modes_in inp (controller_available_modes_in s)")
       (simp_all add: checkSuitabilityInputMode_def)
  have 4: "platform_available_modes_in s \<noteq> [] \<and>
    (use_bypass s \<longrightarrow>
       tryToBypassController s (input_control_mode_desired a request) = None) \<and>
    findSuitableOutputControlModeForPlatformInputMode s (input_control_mode_desired a request)
      = Some out \<and>
    scan_available_modes_in (input_control_mode_desired a request)
      (controller_available_modes_in s) = ModeNotFound
      \<longrightarrow> fst (setControlModeSrvCall a e request s) =
            Some (if (input_control_mode_desired a request AND MATCH_MODE) < (out AND 0x78)
                  then IncompatibleModeLevel else UnsupportedInputMode)"
  proof
    assume h: "platform_available_modes_in s \<noteq> [] \<and>
      (use_bypass s \<longrightarrow>
         tryToBypassController s (input_control_mode_desired a request) = None) \<and>
      findSuitableOutputControlModeForPlatformInputMode s (input_control_mode_desired a request)
        = Some out \<and>
      scan_available_modes_in (input_control_mode_desired a request)
        (controller_available_modes_in s) = ModeNotFound"
    with nf [of "input_control_mode_desired a request"]
    have "checkSuitabilityInputMode s (input_control_mode_desired a request) out =
        Some (if (input_control_mode_desired a request AND MATCH_MODE) < (out AND 0x78)
              then IncompatibleModeLevel else UnsupportedInputMode)"
      by blast
    with h show "fst (setControlModeSrvCall a e request s) =
            Some (if (input_control_mode_desired a request AND MATCH_MODE) < (out AND 0x78)
                  then IncompatibleModeLevel else UnsupportedInputMode)"
      using srv_direct_rejected [of s a request out _ e] by blast
  qed
  from 1 2 3 4 show ?thesis by (intro conjI)
qed

text \<open>C6 on a controller that accepts \<open>0x10\<close> and \<open>0x40\<close>.\<close>

theorem C6_membership_witness:
  "scan_available_modes_in 0x10
     (controller_available_modes_in (fst (node_run False [SetInputModes [0x40, 0x10]])))
     \<noteq> ModeNotFound \<and>
   scan_available_modes_in 0x40
     (controller_available_modes_in (fst (node_run False [SetInputModes [0x40, 0x10]])))
     \<noteq> ModeNotFound \<and>
   checkSuitabilityInputMode (fst (node_run False [SetInputModes [0x40, 0x10]])) 0x50 0x30
     = Some UnsupportedInputMode \<and>
   checkSuitabilityInputMode (fst (node_run False [SetInputModes [0x40, 0x10]])) 0x40 0x30 = None \<and>
   fst (setControlModeSrvCall code_as2 (accepting_env [0x30]) 0x50
     (fst (node_run False [SetInputModes [0x40, 0x10], SetOutputModes [0x30],
                           SetControlMode 0x40 (accepting_env [0x30])])))
     = Some UnsupportedInputMode"
proof -
  have 1: "scan_available_modes_in 0x10
     (controller_available_modes_in (fst (node_run False [SetInputModes [0x40, 0x10]])))
     \<noteq> ModeNotFound"
    using C6_membership [where inp = "0x10" and
        s = "fst (node_run False [SetInputModes [0x40, 0x10]])"]
    by (simp add: model_defs)
  have 2: "scan_available_modes_in 0x40
     (controller_available_modes_in (fst (node_run False [SetInputModes [0x40, 0x10]])))
     \<noteq> ModeNotFound"
    using C6_membership [where inp = "0x40" and
        s = "fst (node_run False [SetInputModes [0x40, 0x10]])"]
    by (simp add: model_defs)
  have 3: "checkSuitabilityInputMode (fst (node_run False [SetInputModes [0x40, 0x10]])) 0x50 0x30
     = Some UnsupportedInputMode"
    using C6_membership [where inp = "0x50" and out = "0x30" and
        s = "fst (node_run False [SetInputModes [0x40, 0x10]])"]
    by (simp add: model_defs)
  have 4: "checkSuitabilityInputMode (fst (node_run False [SetInputModes [0x40, 0x10]])) 0x40 0x30
     = None"
    using C6_membership [where inp = "0x40" and out = "0x30" and
        s = "fst (node_run False [SetInputModes [0x40, 0x10]])"]
    by (simp add: model_defs)
  have 5: "fst (setControlModeSrvCall code_as2 (accepting_env [0x30]) 0x50
     (fst (node_run False [SetInputModes [0x40, 0x10], SetOutputModes [0x30],
                           SetControlMode 0x40 (accepting_env [0x30])])))
     = Some UnsupportedInputMode"
    using C6_membership [where out = "0x30" and a = code_as2 and request = "0x50" and
        e = "accepting_env [0x30]" and
        s = "fst (node_run False [SetInputModes [0x40, 0x10], SetOutputModes [0x30],
                           SetControlMode 0x40 (accepting_env [0x30])])"]
    by (simp add: model_defs)
  from 1 2 3 4 5 show ?thesis by (intro conjI)
qed

text \<open>
  A hover request against an input list that holds \<open>0x12\<close>: the two match under
  \<open>MATCH_MODE\<close>, yet the scan finds nothing and the negotiation fails.
\<close>

theorem C6_counterexample:
  "(0x10 AND MATCH_MODE) = HOVER_MODE_MASK \<and>
   checkMatchWithMask 0x10 0x12 MATCH_MODE \<and>
   controller_available_modes_in (fst (node_run False [SetInputModes [0x12]])) = [0x12] \<and>
   scan_available_modes_in 0x10
     (controller_available_modes_in (fst (node_run False [SetInputModes [0x12]]))) = ModeNotFound \<and>
   checkSuitabilityInputMode (fst (node_run False [SetInputModes [0x12]])) 0x10 0x00
     = Some UnsupportedInputMode \<and>
   snd (node_run False [SetInputModes [0x12], SetOutputModes [0x20],
                        SetControlMode 0x10 (accepting_env [0x20])])
     = [ServiceResponse (Some IncompatibleModeLevel)]"
  by (simp add: model_defs)

text \<open>
  C7. For every mode, candidate list and mask: when the list holds the mode itself the
  result is that exact match, and it is decided where the scan first meets it (whatever
  follows in the list is not looked at); when there is no exact match but some candidate
  matches under the mask, the result is the last candidate of the list that matches under
  the mask; when no candidate matches the result is the numeric sentinel 0.
\<close>

theorem C7_findBestMatchWithMask:
  "(mode \<in> set xs \<longrightarrow> findBestMatchWithMask mode xs msk = mode) \<and>
   (mode \<notin> set ys \<longrightarrow>
      findBestMatchWithMask mode (ys @ mode # zs) msk = findBestMatchWithMask mode (ys @ [mode]) msk) \<and>
   (mode \<notin> set xs \<and> filter (\<lambda>c. checkMatchWithMask mode c msk) xs \<noteq> [] \<longrightarrow>
      findBestMatchWithMask mode xs msk = last (filter (\<lambda>c. checkMatchWithMask mode c msk) xs)) \<and>
   (filter (\<lambda>c. checkMatchWithMask mode c msk) xs = [] \<longrightarrow>
      findBestMatchWithMask mode xs msk = 0)"
proof (intro conjI impI)
  assume "mode \<in> set xs"
  then show "findBestMatchWithMask mode xs msk = mode"
    by (simp add: findBestMatchWithMask_def findBestMatch_loop_exact)
next
  assume "mode \<notin> set ys"
  then show "findBestMatchWithMask mode (ys @ mode # zs) msk
      = findBestMatchWithMask mode (ys @ [mode]) msk"
    by (simp add: findBestMatchWithMask_def findBestMatch_loop_prefix)
next
  assume "mode \<notin> set xs \<and> filter (\<lambda>c. checkMatchWithMask mode c msk) xs \<noteq> []"
  then show "findBestMatchWithMask mode xs msk
      = last (filter (\<lambda>c. checkMatchWithMask mode c msk) xs)"
    by (simp add: findBestMatchWithMask_def findBestMatch_loop_no_exact)
next
  let ?ms = "filter (\<lambda>c. checkMatchWithMask mode c msk) xs"
  assume a: "?ms = []"
  have "mode \<notin> set xs"
  proof
    assume "mode \<in> set xs"
    then have "mode \<in> set ?ms" by (simp add: checkMatchWithMask_def)
    with a show False by simp
  qed
  with a show "findBestMatchWithMask mode xs msk = 0"
    by (simp add: findBestMatchWithMask_def findBestMatch_loop_no_exact)
qed

text \<open>C7 on concrete lists.\<close>

theorem C7_findBestMatchWithMask_witness:
  "findBestMatchWithMask 0x21 [0x25, 0x21, 0x2F] 0xF0 = 0x21 \<and>
   findBestMatchWithMask 0x21 ([0x25] @ 0x21 # [0x2F]) 0xF0
     = findBestMatchWithMask 0x21 ([0x25] @ [0x21]) 0xF0 \<and>
   findBestMatchWithMask 0x21 [0x25, 0x31, 0x2F, 0x40] 0xF0 = 0x2F \<and>
   findBestMatchWithMask 0x21 [0x35, 0x41] 0xF0 = 0"
proof -
  have 1: "findBestMatchWithMask 0x21 [0x25, 0x21, 0x2F] 0xF0 = 0x21"
    using C7_findBestMatchWithMask [where mode="0x21" and xs="[0x25, 0x21, 0x2F]" and msk="0xF0"] by simp
  have 2: "findBestMatchWithMask 0x21 ([0x25] @ 0x21 # [0x2F]) 0xF0
     = findBestMatchWithMask 0x21 ([0x25] @ [0x21]) 0xF0"
    using C7_findBestMatchWithMask [where mode="0x21" and ys="[0x25]" and zs="[0x2F]" and msk="0xF0"] by simp
  have 3: "findBestMatchWithMask 0x21 [0x25, 0x31, 0x2F, 0x40] 0xF0 = 0x2F"
    using C7_findBestMatchWithMask [where mode="0x21" and xs="[0x25, 0x31, 0x2F, 0x40]" and msk="0xF0"]
    by (simp add: checkMatchWithMask_def)
  have 4: "findBestMatchWithMask 0x21 [0x35, 0x41] 0xF0 = 0"
    using C7_findBestMatchWithMask [where mode="0x21" and xs="[0x35, 0x41]" and msk="0xF0"]
    by (simp add: checkMatchWithMask_def)
  from 1 2 3 4 show ?thesis by blast
qed

text \<open>
  C8. The platform is armed and offboard, a state sample and a reference sample arrive,
  then a request for \<open>0x55\<close> is negotiated on the bypass path, then the timer fires. No
  state sample has arrived since the negotiation, and the tick publishes the cached
  reference pose and twist. (A tick that does anything has the platform armed and offboard,
  a mode established and the state-acquired flag set, \<open>control_timer_callback_gate\<close>;
  the bypass path of the negotiation does not clear that flag.)
\<close>

theorem C8_publishes_without_fresh_state:
  "snd (node_run True [PlatformInfoMsg \<lparr> armed = True, offboard = True \<rparr>,
                       StateSample (msg0 1 11) (msg0 1 12), RefPose (msg0 2 21),
                       SetControlMode 0x55 (accepting_env [0x55]),
                       Timer 9 (msg0 0 31, msg0 0 32, msg0 0 33)])
     = [UpdateState (msg0 1 11) (msg0 1 12), UpdateReferencePose (msg0 2 21),
        ServiceResponse None,
        PublishPose (msg0 2 21), PublishTwist (msg0 0 0)]"
  by (simp add: model_defs)

text \<open>
  C9. When a service call ends at the refusal of the subclass (the platform has accepted
  the requested output mode and \<^verbatim>\<open>setMode\<close> has returned false), the established flag
  is false, and \<^verbatim>\<open>input_mode_\<close> (what \<^verbatim>\<open>getMode\<close> returns) is the mode of this
  request and \<^verbatim>\<open>output_mode_\<close> the mode just accepted by the platform, whatever pair
  was stored before. Lines 388--428 alone: if the platform accepts the candidate and
  \<^verbatim>\<open>setMode\<close> refuses, the result is that refusal with the new pair stored.
\<close>

theorem C9_subclass_rejects:
  "(setControlModeSrvCall a e request s = (Some SubclassRejected, s') \<longrightarrow>
      \<not> control_mode_established s' \<and> input_mode s' = request \<and> getMode s' = request \<and>
      setPlatformControlMode e (output_mode s') \<and>
      (if bypass_controller s'
       then \<not> setMode e (convertUint8tToAS2ControlMode a UNSET_MODE_MASK)
                        (convertUint8tToAS2ControlMode a UNSET_MODE_MASK)
       else \<not> setMode e request (output_mode s'))) \<and>
   (setPlatformControlMode e (convertUint8tToAS2ControlMode a candidate) \<and>
    \<not> setMode e (convertUint8tToAS2ControlMode a UNSET_MODE_MASK)
                 (convertUint8tToAS2ControlMode a UNSET_MODE_MASK) \<and>
    \<not> setMode e request (convertUint8tToAS2ControlMode a candidate) \<longrightarrow>
      fst (request_and_set_mode a e request candidate s) = Some SubclassRejected \<and>
      \<not> control_mode_established (snd (request_and_set_mode a e request candidate s)) \<and>
      input_mode (snd (request_and_set_mode a e request candidate s)) = request \<and>
      output_mode (snd (request_and_set_mode a e request candidate s))
        = convertUint8tToAS2ControlMode a candidate)"
proof (rule conjI)
  show "setControlModeSrvCall a e request s = (Some SubclassRejected, s') \<longrightarrow>
      \<not> control_mode_established s' \<and> input_mode s' = request \<and> getMode s' = request \<and>
      setPlatformControlMode e (output_mode s') \<and>
      (if bypass_controller s'
       then \<not> setMode e (convertUint8tToAS2ControlMode a UNSET_MODE_MASK)
                        (convertUint8tToAS2ControlMode a UNSET_MODE_MASK)
       else \<not> setMode e request (output_mode s'))"
  proof (rule impI)
    assume r: "setControlModeSrvCall a e request s = (Some SubclassRejected, s')"
    show "\<not> control_mode_established s' \<and> input_mode s' = request \<and> getMode s' = request \<and>
      setPlatformControlMode e (output_mode s') \<and>
      (if bypass_controller s'
       then \<not> setMode e (convertUint8tToAS2ControlMode a UNSET_MODE_MASK)
                        (convertUint8tToAS2ControlMode a UNSET_MODE_MASK)
       else \<not> setMode e request (output_mode s'))"
    proof (cases rule: srv_cases [of s e a request])
      case (ListFailed err)
      with r show ?thesis by (simp split: if_splits)
    next
      case (SelectFailed s1 err)
      with r select_error [OF SelectFailed(2)] show ?thesis by simp
    next
      case (Requested s1 c)
      let ?s2 = "snd (select_output_candidate (input_control_mode_desired a request) s1)"
      from r Requested(3) have
        f: "fst (request_and_set_mode a e request c ?s2) = Some SubclassRejected"
        and s: "s' = snd (request_and_set_mode a e request c ?s2)"
        by simp_all
      from request_subclass_rejected [OF f] request_keeps [of a e request c ?s2]
      show ?thesis unfolding s getMode_def by simp
    qed
  qed
next
  show "setPlatformControlMode e (convertUint8tToAS2ControlMode a candidate) \<and>
    \<not> setMode e (convertUint8tToAS2ControlMode a UNSET_MODE_MASK)
                 (convertUint8tToAS2ControlMode a UNSET_MODE_MASK) \<and>
    \<not> setMode e request (convertUint8tToAS2ControlMode a candidate) \<longrightarrow>
      fst (request_and_set_mode a e request candidate s) = Some SubclassRejected \<and>
      \<not> control_mode_established (snd (request_and_set_mode a e request candidate s)) \<and>
      input_mode (snd (request_and_set_mode a e request candidate s)) = request \<and>
      output_mode (snd (request_and_set_mode a e request candidate s))
        = convertUint8tToAS2ControlMode a candidate"
    by (simp add: request_and_set_mode_def Let_def)
qed

text \<open>C9 on a node with the pair \<open>(0x40, 0x30)\<close> established, asked for \<open>0x50\<close>.\<close>

theorem C9_subclass_rejects_witness:
  "setControlModeSrvCall code_as2 (refusing_subclass (accepting_env [0x30])) 0x50
     (fst (node_run False [SetInputModes [0x40, 0x50], SetOutputModes [0x30],
                           SetControlMode 0x40 (accepting_env [0x30])]))
   = (Some SubclassRejected,
      snd (setControlModeSrvCall code_as2 (refusing_subclass (accepting_env [0x30])) 0x50
        (fst (node_run False [SetInputModes [0x40, 0x50], SetOutputModes [0x30],
                              SetControlMode 0x40 (accepting_env [0x30])])))) \<and>
   getMode (fst (node_run False [SetInputModes [0x40, 0x50], SetOutputModes [0x30],
                                 SetControlMode 0x40 (accepting_env [0x30])])) = 0x40 \<and>
   control_mode_established (fst (node_run False [SetInputModes [0x40, 0x50], SetOutputModes [0x30],
                                 SetControlMode 0x40 (accepting_env [0x30])])) \<and>
   \<not> control_mode_established
      (snd (setControlModeSrvCall code_as2 (refusing_subclass (accepting_env [0x30])) 0x50
        (fst (node_run False [SetInputModes [0x40, 0x50], SetOutputModes [0x30],
                              SetControlMode 0x40 (accepting_env [0x30])])))) \<and>
   getMode
      (snd (setControlModeSrvCall code_as2 (refusing_subclass (accepting_env [0x30])) 0x50
        (fst (node_run False [SetInputModes [0x40, 0x50], SetOutputModes [0x30],
                              SetControlMode 0x40 (accepting_env [0x30])])))) = 0x50 \<and>
   output_mode
      (snd (setControlModeSrvCall code_as2 (refusing_subclass (accepting_env [0x30])) 0x50
        (fst (node_run False [SetInputModes [0x40, 0x50], SetOutputModes [0x30],
                              SetControlMode 0x40 (accepting_env [0x30])])))) = 0x30 \<and>
   fst (request_and_set_mode code_as2 (refusing_subclass (accepting_env [0x30])) 0x50 0x30
          (node0 False)) = Some SubclassRejected"
proof -
  let ?s = "fst (node_run False [SetInputModes [0x40, 0x50], SetOutputModes [0x30],
                           SetControlMode 0x40 (accepting_env [0x30])])"
  let ?e = "refusing_subclass (accepting_env [0x30])"
  have r: "setControlModeSrvCall code_as2 ?e 0x50 ?s
      = (Some SubclassRejected, snd (setControlModeSrvCall code_as2 ?e 0x50 ?s))"
    by (simp add: model_defs)
  have before: "getMode ?s = 0x40 \<and> control_mode_established ?s"
    by (simp add: model_defs)
  have out: "output_mode (snd (setControlModeSrvCall code_as2 ?e 0x50 ?s)) = 0x30"
    by (simp add: model_defs)
  have hooks: "setPlatformControlMode ?e (convertUint8tToAS2ControlMode code_as2 0x30) \<and>
    \<not> setMode ?e (convertUint8tToAS2ControlMode code_as2 UNSET_MODE_MASK)
                  (convertUint8tToAS2ControlMode code_as2 UNSET_MODE_MASK) \<and>
    \<not> setMode ?e 0x50 (convertUint8tToAS2ControlMode code_as2 0x30)"
    by (simp add: model_defs)
  from C9_subclass_rejects [where a = code_as2 and e = ?e and request = "0x50" and s = ?s
      and s' = "snd (setControlModeSrvCall code_as2 ?e 0x50 ?s)"
      and candidate = "0x30"] r
  have a: "\<not> control_mode_established (snd (setControlModeSrvCall code_as2 ?e 0x50 ?s)) \<and>
      getMode (snd (setControlModeSrvCall code_as2 ?e 0x50 ?s)) = 0x50"
    by blast
  from C9_subclass_rejects [where a = code_as2 and e = ?e and request = "0x50"
      and s = "node0 False" and candidate = "0x30"
      and s' = "node0 False"] hooks
  have b: "fst (request_and_set_mode code_as2 ?e 0x50 0x30 (node0 False)) = Some SubclassRejected"
    by blast
  from r before a out b show ?thesis by (intro conjI) simp_all
qed

text \<open>
  C10. Bypass is enabled and the requested mode is one the bypass attempt accepts on the
  platform list. If the service call fails, it fails at the platform's refusal or at the
  subclass's refusal, and it leaves the bypass flag true and the established flag false.
  From then on each state or reference sample is stored, sets its acquired flag and calls
  no hook of the subclass, and this holds along any sequence of samples.
\<close>

theorem C10_bypass_flag_survives_failure:
  assumes "use_bypass s"
    and "setControlModeSrvCall a e request s = (r, s')"
    and "tryToBypassController s' (input_control_mode_desired a request) \<noteq> None"
    and "r \<noteq> None"
  shows "(r = Some PlatformRejected \<or> r = Some SubclassRejected) \<and>
         bypass_controller s' \<and> \<not> control_mode_established s' \<and>
         step a (StateSample pose_msg twist_msg) s'
           = (s'\<lparr> state_adquired := True, pose := pose_msg, twist := twist_msg \<rparr>, []) \<and>
         step a (RefPose ref_pose_msg) s'
           = (s'\<lparr> motion_reference_adquired := True, ref_pose := ref_pose_msg \<rparr>, []) \<and>
         step a (RefTwist ref_twist_msg) s'
           = (s'\<lparr> motion_reference_adquired := True, ref_twist := ref_twist_msg \<rparr>, []) \<and>
         step a (RefTraj ref_traj_msg) s'
           = (s'\<lparr> motion_reference_adquired := True, ref_traj := ref_traj_msg \<rparr>, []) \<and>
         (list_all is_sample samples \<longrightarrow>
            snd (run a samples s') = [] \<and>
            bypass_controller (fst (run a samples s')) \<and>
            \<not> control_mode_established (fst (run a samples s')))"
proof -
  from srv_bypass_failure [OF assms]
  have f: "(r = Some PlatformRejected \<or> r = Some SubclassRejected)"
    and b: "bypass_controller s'" and n: "\<not> control_mode_established s'"
    by simp_all
  from b have steps: "step a (StateSample pose_msg twist_msg) s'
           = (s'\<lparr> state_adquired := True, pose := pose_msg, twist := twist_msg \<rparr>, [])"
         "step a (RefPose ref_pose_msg) s'
           = (s'\<lparr> motion_reference_adquired := True, ref_pose := ref_pose_msg \<rparr>, [])"
         "step a (RefTwist ref_twist_msg) s'
           = (s'\<lparr> motion_reference_adquired := True, ref_twist := ref_twist_msg \<rparr>, [])"
         "step a (RefTraj ref_traj_msg) s'
           = (s'\<lparr> motion_reference_adquired := True, ref_traj := ref_traj_msg \<rparr>, [])"
    by (simp_all add: state_callback_def ref_pose_callback_def ref_twist_callback_def
        ref_traj_callback_def)
  have "list_all is_sample samples \<longrightarrow>
            snd (run a samples s') = [] \<and>
            bypass_controller (fst (run a samples s')) \<and>
            \<not> control_mode_established (fst (run a samples s'))"
    using run_samples_bypass [OF b, of samples a] n by simp
  with f b n steps show ?thesis by (intro conjI)
qed

text \<open>C10 on a platform that lists \<open>0x55\<close> and refuses the request.\<close>

theorem C10_bypass_flag_survives_failure_witness:
  "fst (setControlModeSrvCall code_as2 (refusing_platform (accepting_env [0x55])) 0x55 (node0 True))
     = Some PlatformRejected \<and>
   bypass_controller
     (snd (setControlModeSrvCall code_as2 (refusing_platform (accepting_env [0x55])) 0x55
        (node0 True))) \<and>
   \<not> control_mode_established
     (snd (setControlModeSrvCall code_as2 (refusing_platform (accepting_env [0x55])) 0x55
        (node0 True))) \<and>
   snd (run code_as2 [StateSample (msg0 1 11) (msg0 1 12), RefPose (msg0 2 21),
                      RefTwist (msg0 3 22), RefTraj 7, StateSample (msg0 4 13) (msg0 4 14)]
     (snd (setControlModeSrvCall code_as2 (refusing_platform (accepting_env [0x55])) 0x55
        (node0 True)))) = ([] :: (int, int, int, int) event list) \<and>
   pose (fst (step code_as2 (StateSample (msg0 1 11) (msg0 1 12) :: (uint8_t, int, int, int, int) input)
     (snd (setControlModeSrvCall code_as2 (refusing_platform (accepting_env [0x55])) 0x55
        (node0 True))))) = msg0 1 11"
proof -
  let ?e = "refusing_platform (accepting_env [0x55])"
  let ?r = "fst (setControlModeSrvCall code_as2 ?e 0x55 (node0 True))"
  let ?s' = "snd (setControlModeSrvCall code_as2 ?e 0x55 (node0 True))"
  let ?samples = "[StateSample (msg0 1 11) (msg0 1 12), RefPose (msg0 2 21),
                      RefTwist (msg0 3 22), RefTraj 7, StateSample (msg0 4 13) (msg0 4 14)]
                  :: (uint8_t, int, int, int, int) input list"
  have u: "use_bypass (node0 True)" by (simp add: model_defs)
  have c: "setControlModeSrvCall code_as2 ?e 0x55 (node0 True) = (?r, ?s')" by simp
  have t: "tryToBypassController ?s' (input_control_mode_desired code_as2 0x55) \<noteq> None"
    by (simp add: model_defs)
  have f: "?r \<noteq> None" by (simp add: model_defs)
  have r: "?r = Some PlatformRejected" by (simp add: model_defs)
  have l: "list_all is_sample ?samples" by simp
  from C10_bypass_flag_survives_failure [OF u c t f, where samples = ?samples
      and pose_msg = "msg0 1 11" and twist_msg = "msg0 1 12"
      and ref_pose_msg = "msg0 2 21" and ref_twist_msg = "msg0 3 22" and ref_traj_msg = 7] l
  have g: "bypass_controller ?s' \<and> \<not> control_mode_established ?s' \<and>
      step code_as2 (StateSample (msg0 1 11) (msg0 1 12) :: (uint8_t, int, int, int, int) input) ?s'
        = (?s'\<lparr> state_adquired := True, pose := msg0 1 11, twist := msg0 1 12 \<rparr>, []) \<and>
      snd (run code_as2 ?samples ?s') = []"
    by blast
  then have "pose (fst (step code_as2
      (StateSample (msg0 1 11) (msg0 1 12) :: (uint8_t, int, int, int, int) input) ?s')) = msg0 1 11"
    by simp
  with g r show ?thesis by (intro conjI) blast+
qed

end
